theory Spec2Isabelle
  imports Complex_Main "HOL-Library.Sublist"
begin

section \<open>LuxTrack: a shallow embedding of the Go backend and of the transaction form\<close>

text \<open>
  The Go backend (Fiber handlers, services, repositories over database/sql) is embedded
  function by function. What the backend calls but does not define is taken as data:
  the database server's refusals (\<open>engine\<close>) and the bcrypt, uuid, jwt and clock
  libraries (\<open>libs\<close>). Go's \<open>error\<close> results are values of the datatype \<open>error\<close>;
  a \<open>nil\<close> error is \<open>None\<close>, a \<open>(value, error)\<close> pair is a sum with \<open>Inl\<close> the error.
\<close>

subsection \<open>Errors, JSON values, HTTP responses\<close>

datatype error =
    ErrNoRows
  | ErrScanNull
  | ErrSyntax
  | ErrRange
  | DriverError string
  | ErrorString string

text \<open>\<open>err.Error()\<close>: the message of an error value.\<close>

fun Error_msg :: "error \<Rightarrow> string" where
  "Error_msg ErrNoRows = ''sql: no rows in result set''"
| "Error_msg ErrScanNull = ''sql: Scan error: converting NULL to string is unsupported''"
| "Error_msg ErrSyntax = ''strconv.Atoi: invalid syntax''"
| "Error_msg ErrRange = ''strconv.Atoi: value out of range''"
| "Error_msg (DriverError m) = m"
| "Error_msg (ErrorString m) = m"

type_synonym time = int

datatype json =
    JNull
  | JString string
  | JNumber int
  | JTime time
  | JArray "json list"
  | JObject "(string \<times> json) list"

type_synonym Response = "nat \<times> json"

definition StatusOK :: nat where "StatusOK = 200"
definition StatusCreated :: nat where "StatusCreated = 201"
definition StatusBadRequest :: nat where "StatusBadRequest = 400"
definition StatusUnauthorized :: nat where "StatusUnauthorized = 401"
definition StatusNotFound :: nat where "StatusNotFound = 404"
definition StatusInternalServerError :: nat where "StatusInternalServerError = 500"

text \<open>httphelper.JSONError: \<open>c.Status(code).JSON(fiber.Map{"error": message})\<close>.\<close>

definition JSONError :: "nat \<Rightarrow> string \<Rightarrow> Response" where
  "JSONError code message = (code, JObject [(''error'', JString message)])"

text \<open>The keys of a JSON object, at any depth.\<close>

fun json_keys :: "json \<Rightarrow> string set" where
  "json_keys (JObject kvs) = fst ` set kvs \<union> (\<Union>kv \<in> set kvs. json_keys (snd kv))"
| "json_keys (JArray js) = (\<Union>j \<in> set js. json_keys j)"
| "json_keys _ = {}"

subsection \<open>The domain model (backend/domain/model)\<close>

text \<open>
  \<open>float64\<close> fields are carried along but never computed with by the code embedded here.
\<close>

type_synonym float64 = rat

record loginReq =
  Username :: string
  Password :: string

record createUserReq =
  Username :: string
  Email :: string
  Role :: string
  ProfilePhoto :: string
  Password :: string

record Product =
  ID :: string
  Code :: string
  Name :: string
  Description :: string
  ConditionID :: int
  StatusID :: int
  CategoryID :: int
  BrandID :: int
  SellerID :: string
  Price :: float64
  PurchasePrice :: float64
  StockQty :: int
  CreatedBy :: string
  CreatedAt :: time
  UpdatedBy :: string
  UpdatedAt :: time

record User =
  ID :: string
  Username :: string
  Email :: string
  Role :: string
  ProfilePhoto :: string
  LastLogin :: "time option"
  PasswordHash :: string
  CreatedBy :: string
  CreatedAt :: time
  UpdatedBy :: string
  UpdatedAt :: time

text \<open>
  encoding/json on \<open>model.User\<close>, following the struct tags: fields in declaration order,
  \<open>omitempty\<close> fields left out when empty (a nil pointer for \<open>last_login\<close>), and the field
  tagged \<open>json:"-"\<close> (PasswordHash) never written.
\<close>

definition omitempty :: "string \<Rightarrow> string \<Rightarrow> (string \<times> json) list" where
  "omitempty key v = (if v = [] then [] else [(key, JString v)])"

definition User_json :: "User \<Rightarrow> json" where
  "User_json u = JObject (
     [(''id'', JString (User.ID u)), (''username'', JString (Username u))]
     @ omitempty ''email'' (Email u)
     @ [(''role'', JString (Role u))]
     @ omitempty ''profile_photo'' (ProfilePhoto u)
     @ (case LastLogin u of None \<Rightarrow> [] | Some t \<Rightarrow> [(''last_login'', JTime t)])
     @ omitempty ''created_by'' (User.CreatedBy u)
     @ [(''created_at'', JTime (User.CreatedAt u))]
     @ omitempty ''updated_by'' (User.UpdatedBy u)
     @ [(''updated_at'', JTime (User.UpdatedAt u))])"

text \<open>A \<open>[]model.User\<close> that was never appended to is a nil slice, encoded as \<open>null\<close>.\<close>

definition Users_json :: "User list \<Rightarrow> json" where
  "Users_json us = (if us = [] then JNull else JArray (map User_json us))"

subsection \<open>The store: tables, statements, the database server\<close>

text \<open>
  A row of \<open>users\<close> as migration 001 declares it: \<open>email\<close>, \<open>profile_photo\<close>,
  \<open>created_by\<close> and \<open>updated_by\<close> may be NULL (the seeded admin row leaves three of them
  NULL); \<open>created_at\<close> and \<open>updated_at\<close> are written as \<open>NOW()\<close> by every insert of the
  repository. A row of \<open>products\<close> holds the seven columns the repository writes and reads.
\<close>

record user_row =
  id :: string
  username :: string
  password_hash :: string
  role :: string
  email :: "string option"
  profile_photo :: "string option"
  last_login :: "time option"
  created_by :: "string option"
  created_at :: time
  updated_by :: "string option"
  updated_at :: time

record product_row =
  product_id :: string
  name :: string
  brand_id :: int
  condition_id :: int
  status_id :: int
  seller_id :: string
  code :: string

record tables =
  users :: "user_row list"
  products :: "product_row list"

text \<open>The six statements the repositories send through \<open>tx.ExecContext\<close>.\<close>

datatype stmt =
    INSERT_products product_row
  | UPDATE_products product_row
  | DELETE_products string
  | INSERT_users User
  | UPDATE_users User
  | DELETE_users string

text \<open>
  The database server, as far as the backend cannot decide it: a statement, a BEGIN, a
  COMMIT or a query may be refused (constraint violation, type error, lost connection),
  and \<open>NOW()\<close> is the server's clock.
\<close>

record engine =
  begin_fault :: "error option"
  exec_fault :: "stmt \<Rightarrow> tables \<Rightarrow> error option"
  commit_fault :: "error option"
  query_fault :: "error option"
  NOW :: time

text \<open>What a statement that is not refused does to the tables.\<close>

fun apply_stmt :: "time \<Rightarrow> stmt \<Rightarrow> tables \<Rightarrow> tables" where
  "apply_stmt now (INSERT_products r) t = t\<lparr>products := products t @ [r]\<rparr>"
| "apply_stmt now (UPDATE_products r) t =
     t\<lparr>products := map (\<lambda>x. if product_id x = product_id r then r else x) (products t)\<rparr>"
| "apply_stmt now (DELETE_products i) t =
     t\<lparr>products := filter (\<lambda>x. product_id x \<noteq> i) (products t)\<rparr>"
| "apply_stmt now (INSERT_users u) t =
     t\<lparr>users := users t @
        [\<lparr>id = User.ID u, username = Username u, password_hash = PasswordHash u,
          role = Role u, email = Some (Email u), profile_photo = Some (ProfilePhoto u),
          last_login = LastLogin u, created_by = Some (User.CreatedBy u), created_at = now,
          updated_by = Some (User.UpdatedBy u), updated_at = now\<rparr>]\<rparr>"
| "apply_stmt now (UPDATE_users u) t =
     t\<lparr>users := map (\<lambda>x. if id x = User.ID u
          then x\<lparr>username := Username u, role := Role u, email := Some (Email u),
                 profile_photo := Some (ProfilePhoto u),
                 updated_by := Some (User.UpdatedBy u), updated_at := now\<rparr>
          else x) (users t)\<rparr>"
| "apply_stmt now (DELETE_users i) t = t\<lparr>users := filter (\<lambda>x. id x \<noteq> i) (users t)\<rparr>"

text \<open>database/sql transactions: a \<open>Tx\<close> holds the uncommitted view of the tables.\<close>

record Tx =
  working :: tables

definition BeginTx :: "engine \<Rightarrow> tables \<Rightarrow> error + Tx" where
  "BeginTx eng db = (case begin_fault eng of Some e \<Rightarrow> Inl e | None \<Rightarrow> Inr \<lparr>working = db\<rparr>)"

definition ExecContext :: "engine \<Rightarrow> Tx \<Rightarrow> stmt \<Rightarrow> error + Tx" where
  "ExecContext eng tx st =
     (case exec_fault eng st (working tx) of
        Some e \<Rightarrow> Inl e
      | None \<Rightarrow> Inr (tx\<lparr>working := apply_stmt (NOW eng) st (working tx)\<rparr>))"

definition Commit :: "engine \<Rightarrow> Tx \<Rightarrow> tables \<Rightarrow> error option \<times> tables" where
  "Commit eng tx db = (case commit_fault eng of Some e \<Rightarrow> (Some e, db) | None \<Rightarrow> (None, working tx))"

definition Rollback :: "Tx \<Rightarrow> tables \<Rightarrow> tables" where
  "Rollback tx db = db"

subsection \<open>Configuration and the libraries the backend calls\<close>

record Config =
  AppName :: string
  AppEnv :: string
  AppPort :: string
  DBHost :: string
  DBPort :: int
  DBUser :: string
  DBPass :: string
  DBName :: string
  DebugLog :: bool
  JwtSecret :: string

text \<open>
  golang-jwt: \<open>token.Claims\<close> is an interface value; \<open>jwt.Parse\<close> fills it with a
  \<open>MapClaims\<close>, and \<open>ValidateJWT\<close> asserts that type.
\<close>

datatype Claims = MapClaims "string \<rightharpoonup> json" | OtherClaims

record Token =
  Valid :: bool
  Claims :: Claims

text \<open>
  The libraries: \<open>uuid.NewString()\<close>; \<open>bcrypt.GenerateFromPassword\<close> at the default cost
  (with the salt of this call); \<open>bcrypt.CompareHashAndPassword hash plain\<close>;
  \<open>time.Now().Unix()\<close>; HS256 signing of a claims map under a key; and \<open>jwt.Parse\<close> of a
  token string under a key, which verifies the signature and the \<open>exp\<close> claim.
\<close>

record libs =
  uuid_NewString :: string
  bcrypt_GenerateFromPassword :: "string \<Rightarrow> error + string"
  bcrypt_CompareHashAndPassword :: "string \<Rightarrow> string \<Rightarrow> error option"
  time_Now :: time
  jwt_SignedString :: "string \<Rightarrow> (string \<rightharpoonup> json) \<Rightarrow> error + string"
  jwt_Parse :: "string \<Rightarrow> string \<Rightarrow> error + Token"

subsection \<open>backend/internal/util: password, jwtutil\<close>

definition password_Hash :: "libs \<Rightarrow> string \<Rightarrow> error + string" where
  "password_Hash l plain = bcrypt_GenerateFromPassword l plain"

definition password_Verify :: "libs \<Rightarrow> string \<Rightarrow> string \<Rightarrow> error option" where
  "password_Verify l plain hash = bcrypt_CompareHashAndPassword l hash plain"

definition GenerateJWT :: "Config \<Rightarrow> libs \<Rightarrow> string \<Rightarrow> error + string" where
  "GenerateJWT cfg l email' =
     (let claims = [''email'' \<mapsto> JString email', ''exp'' \<mapsto> JNumber (time_Now l + 24 * 3600)]
      in jwt_SignedString l (JwtSecret cfg) claims)"

definition ValidateJWT :: "Config \<Rightarrow> libs \<Rightarrow> string \<Rightarrow> error + (string \<rightharpoonup> json)" where
  "ValidateJWT cfg l tokenStr =
     (case jwt_Parse l tokenStr (JwtSecret cfg) of
        Inl err \<Rightarrow> Inl (ErrorString ''invalid or expired token'')
      | Inr token \<Rightarrow>
          if \<not> Valid token then Inl (ErrorString ''invalid or expired token'')
          else (case Claims token of
                  MapClaims claims \<Rightarrow> Inr claims
                | OtherClaims \<Rightarrow> Inl (ErrorString ''could not parse claims'')))"

definition ExtractBearerToken :: "string \<Rightarrow> string" where
  "ExtractBearerToken authHeader =
     (if prefix ''Bearer '' authHeader then drop (length ''Bearer '') authHeader else [])"

subsection \<open>backend/internal/repository\<close>

definition row_of_Product :: "Product \<Rightarrow> product_row" where
  "row_of_Product p =
     \<lparr>product_id = Product.ID p, name = Name p, brand_id = BrandID p,
      condition_id = ConditionID p, status_id = StatusID p, seller_id = SellerID p,
      code = Code p\<rparr>"

definition productRepository_Insert :: "engine \<Rightarrow> Tx \<Rightarrow> Product \<Rightarrow> error + Tx" where
  "productRepository_Insert eng tx p = ExecContext eng tx (INSERT_products (row_of_Product p))"

definition productRepository_Update :: "engine \<Rightarrow> Tx \<Rightarrow> Product \<Rightarrow> error + Tx" where
  "productRepository_Update eng tx p = ExecContext eng tx (UPDATE_products (row_of_Product p))"

definition productRepository_Delete :: "engine \<Rightarrow> Tx \<Rightarrow> string \<Rightarrow> error + Tx" where
  "productRepository_Delete eng tx i = ExecContext eng tx (DELETE_products i)"

definition userRepository_Insert :: "engine \<Rightarrow> Tx \<Rightarrow> User \<Rightarrow> error + Tx" where
  "userRepository_Insert eng tx u = ExecContext eng tx (INSERT_users u)"

definition userRepository_Update :: "engine \<Rightarrow> Tx \<Rightarrow> User \<Rightarrow> error + Tx" where
  "userRepository_Update eng tx u = ExecContext eng tx (UPDATE_users u)"

definition userRepository_Delete :: "engine \<Rightarrow> Tx \<Rightarrow> string \<Rightarrow> error + Tx" where
  "userRepository_Delete eng tx i = ExecContext eng tx (DELETE_users i)"

text \<open>
  \<open>row.Scan\<close> into a \<open>model.User\<close>: a NULL cannot be scanned into a Go \<open>string\<close>.
  \<open>with_hash\<close> tells whether \<open>password_hash\<close> is among the selected columns
  (FindByID, FindByUsername) or not (List, where the field keeps its zero value).
\<close>

definition Scan_User :: "bool \<Rightarrow> user_row \<Rightarrow> error + User" where
  "Scan_User with_hash r =
     (case (email r, profile_photo r, created_by r, updated_by r) of
        (Some e, Some p, Some cb, Some ub) \<Rightarrow>
          Inr \<lparr>ID = id r, Username = username r, Email = e, Role = role r,
               ProfilePhoto = p, LastLogin = last_login r,
               PasswordHash = (if with_hash then password_hash r else []),
               CreatedBy = cb, CreatedAt = created_at r,
               UpdatedBy = ub, UpdatedAt = updated_at r\<rparr>
      | _ \<Rightarrow> Inl ErrScanNull)"

text \<open>\<open>db.QueryRowContext ... WHERE c = $1\<close>: the first matching row, or \<open>sql.ErrNoRows\<close>.\<close>

definition QueryRow_users :: "engine \<Rightarrow> tables \<Rightarrow> (user_row \<Rightarrow> bool) \<Rightarrow> error + user_row" where
  "QueryRow_users eng db P =
     (case query_fault eng of
        Some e \<Rightarrow> Inl e
      | None \<Rightarrow> (case find P (users db) of None \<Rightarrow> Inl ErrNoRows | Some r \<Rightarrow> Inr r))"

definition userRepository_FindByID :: "engine \<Rightarrow> tables \<Rightarrow> string \<Rightarrow> error + User" where
  "userRepository_FindByID eng db i =
     (case QueryRow_users eng db (\<lambda>r. id r = i) of
        Inl err \<Rightarrow> Inl err
      | Inr r \<Rightarrow> Scan_User True r)"

definition userRepository_FindByUsername :: "engine \<Rightarrow> tables \<Rightarrow> string \<Rightarrow> error + User" where
  "userRepository_FindByUsername eng db username' =
     (case QueryRow_users eng db (\<lambda>r. username r = username') of
        Inl err \<Rightarrow> Inl err
      | Inr r \<Rightarrow> Scan_User True r)"

text \<open>
  \<open>SELECT ... FROM users ORDER BY created_at DESC LIMIT $1 OFFSET $2\<close>. The server
  refuses a negative LIMIT or OFFSET; rows with equal \<open>created_at\<close> keep table order.
\<close>

definition Query_users_page :: "engine \<Rightarrow> tables \<Rightarrow> int \<Rightarrow> int \<Rightarrow> error + user_row list" where
  "Query_users_page eng db limit offset =
     (case query_fault eng of
        Some e \<Rightarrow> Inl e
      | None \<Rightarrow>
          if limit < 0 then Inl (DriverError ''LIMIT must not be negative'')
          else if offset < 0 then Inl (DriverError ''OFFSET must not be negative'')
          else Inr (take (nat limit) (drop (nat offset)
                      (sort_key (\<lambda>r. - created_at r) (users db)))))"

text \<open>The \<open>for rows.Next()\<close> loop of List: scan each row, append, stop at the first error.\<close>

fun scan_rows :: "user_row list \<Rightarrow> User list \<Rightarrow> error + User list" where
  "scan_rows [] out = Inr out"
| "scan_rows (r # rows) out =
     (case Scan_User False r of
        Inl err \<Rightarrow> Inl err
      | Inr u \<Rightarrow> scan_rows rows (out @ [u]))"

definition userRepository_List :: "engine \<Rightarrow> tables \<Rightarrow> int \<Rightarrow> int \<Rightarrow> error + User list" where
  "userRepository_List eng db limit offset =
     (let limit = (if limit \<le> 0 then 50 else limit) in
      case Query_users_page eng db limit offset of
        Inl err \<Rightarrow> Inl err
      | Inr rows \<Rightarrow> scan_rows rows [])"

subsection \<open>backend/internal/service\<close>

text \<open>
  Every mutating service method has the same shape: \<open>BeginTx\<close>, \<open>defer tx.Rollback()\<close>,
  one repository call, \<open>tx.Commit()\<close>. The deferred rollback runs on every return; after a
  successful commit it finds the transaction done and changes nothing. The methods return
  the error (\<open>None\<close> for nil) and the store they leave behind.
\<close>

definition productService_Create :: "engine \<Rightarrow> Product \<Rightarrow> tables \<Rightarrow> error option \<times> tables" where
  "productService_Create eng p db =
     (case BeginTx eng db of
        Inl err \<Rightarrow> (Some err, db)
      | Inr tx \<Rightarrow>
          (case productRepository_Insert eng tx p of
             Inl err \<Rightarrow> (Some err, Rollback tx db)
           | Inr tx' \<Rightarrow> Commit eng tx' db))"

definition productService_Update :: "engine \<Rightarrow> Product \<Rightarrow> tables \<Rightarrow> error option \<times> tables" where
  "productService_Update eng p db =
     (case BeginTx eng db of
        Inl err \<Rightarrow> (Some err, db)
      | Inr tx \<Rightarrow>
          (case productRepository_Update eng tx p of
             Inl err \<Rightarrow> (Some err, Rollback tx db)
           | Inr tx' \<Rightarrow> Commit eng tx' db))"

definition productService_Delete :: "engine \<Rightarrow> string \<Rightarrow> tables \<Rightarrow> error option \<times> tables" where
  "productService_Delete eng i db =
     (case BeginTx eng db of
        Inl err \<Rightarrow> (Some err, db)
      | Inr tx \<Rightarrow>
          (case productRepository_Delete eng tx i of
             Inl err \<Rightarrow> (Some err, Rollback tx db)
           | Inr tx' \<Rightarrow> Commit eng tx' db))"

text \<open>
  \<open>userService.Create\<close> also writes \<open>u.ID\<close> and \<open>u.PasswordHash\<close> through the pointer it
  is given, so the user as the caller sees it afterwards is returned as well.
\<close>

definition userService_Create ::
    "libs \<Rightarrow> engine \<Rightarrow> User \<Rightarrow> string \<Rightarrow> tables \<Rightarrow> error option \<times> User \<times> tables" where
  "userService_Create l eng u plainPassword db =
     (let u = (if User.ID u = [] then u\<lparr>ID := uuid_NewString l\<rparr> else u) in
      case password_Hash l plainPassword of
        Inl err \<Rightarrow> (Some err, u, db)
      | Inr hash \<Rightarrow>
          (let u = u\<lparr>PasswordHash := hash\<rparr> in
           case BeginTx eng db of
             Inl err \<Rightarrow> (Some err, u, db)
           | Inr tx \<Rightarrow>
               (case userRepository_Insert eng tx u of
                  Inl err \<Rightarrow> (Some err, u, Rollback tx db)
                | Inr tx' \<Rightarrow> (case Commit eng tx' db of (err, db') \<Rightarrow> (err, u, db')))))"

definition userService_Update :: "engine \<Rightarrow> User \<Rightarrow> tables \<Rightarrow> error option \<times> tables" where
  "userService_Update eng u db =
     (case BeginTx eng db of
        Inl err \<Rightarrow> (Some err, db)
      | Inr tx \<Rightarrow>
          (case userRepository_Update eng tx u of
             Inl err \<Rightarrow> (Some err, Rollback tx db)
           | Inr tx' \<Rightarrow> Commit eng tx' db))"

definition userService_Delete :: "engine \<Rightarrow> string \<Rightarrow> tables \<Rightarrow> error option \<times> tables" where
  "userService_Delete eng i db =
     (case BeginTx eng db of
        Inl err \<Rightarrow> (Some err, db)
      | Inr tx \<Rightarrow>
          (case userRepository_Delete eng tx i of
             Inl err \<Rightarrow> (Some err, Rollback tx db)
           | Inr tx' \<Rightarrow> Commit eng tx' db))"

definition userService_FindByID :: "engine \<Rightarrow> tables \<Rightarrow> string \<Rightarrow> error + User" where
  "userService_FindByID eng db i = userRepository_FindByID eng db i"

definition userService_List :: "engine \<Rightarrow> tables \<Rightarrow> int \<Rightarrow> int \<Rightarrow> error + User list" where
  "userService_List eng db limit offset = userRepository_List eng db limit offset"

definition userService_Authenticate ::
    "libs \<Rightarrow> engine \<Rightarrow> tables \<Rightarrow> string \<Rightarrow> string \<Rightarrow> error + User" where
  "userService_Authenticate l eng db username' plain =
     (case userRepository_FindByUsername eng db username' of
        Inl err \<Rightarrow> Inl err
      | Inr u \<Rightarrow>
          (case password_Verify l plain (PasswordHash u) of
             Some err \<Rightarrow> Inl (ErrorString ''invalid credentials'')
           | None \<Rightarrow> Inr u))"

subsection \<open>The request context and the Go library functions the handlers use\<close>

text \<open>
  A Fiber context, as far as the handlers read and write it: request headers, route
  parameters, query parameters, and the per-request \<open>Locals\<close>. The parsed body is an
  argument of each handler (\<open>None\<close> when \<open>c.BodyParser\<close> fails).
\<close>

record Ctx =
  headers :: "string \<rightharpoonup> string"
  params :: "string \<rightharpoonup> string"
  queries :: "string \<rightharpoonup> string"
  locals :: "string \<rightharpoonup> json"

definition Ctx_Get :: "Ctx \<Rightarrow> string \<Rightarrow> string" where
  "Ctx_Get c key = (case headers c key of None \<Rightarrow> [] | Some v \<Rightarrow> v)"

definition Ctx_Params :: "Ctx \<Rightarrow> string \<Rightarrow> string" where
  "Ctx_Params c key = (case params c key of None \<Rightarrow> [] | Some v \<Rightarrow> v)"

definition Ctx_Query :: "Ctx \<Rightarrow> string \<Rightarrow> string \<Rightarrow> string" where
  "Ctx_Query c key defaultValue =
     (case queries c key of None \<Rightarrow> defaultValue | Some v \<Rightarrow> if v = [] then defaultValue else v)"

text \<open>\<open>c.Locals(key).(string)\<close>: the type assertion panics unless a string is stored.\<close>

definition Locals_string :: "Ctx \<Rightarrow> string \<Rightarrow> string option" where
  "Locals_string c key = (case locals c key of Some (JString s) \<Rightarrow> Some s | _ \<Rightarrow> None)"

text \<open>\<open>strings.TrimSpace\<close>, on the ASCII white space characters.\<close>

definition is_space :: "char \<Rightarrow> bool" where
  "is_space ch = (ch \<in> set [CHR 0x09, CHR 0x0A, CHR 0x0B, CHR 0x0C, CHR 0x0D, CHR '' ''])"

definition TrimSpace :: "string \<Rightarrow> string" where
  "TrimSpace s = rev (dropWhile is_space (rev (dropWhile is_space s)))"

text \<open>
  \<open>strconv.Atoi\<close> on a 64-bit platform: an optional sign, then decimal digits only. A
  syntax error yields 0; a value out of range yields the nearest \<open>int64\<close>; both with an
  error.
\<close>

definition is_digit :: "char \<Rightarrow> bool" where
  "is_digit ch = (48 \<le> (of_char ch :: nat) \<and> (of_char ch :: nat) \<le> 57)"

definition digits_value :: "string \<Rightarrow> int" where
  "digits_value ds = foldl (\<lambda>n ch. n * 10 + (int (of_char ch) - 48)) 0 ds"

definition Atoi :: "string \<Rightarrow> int \<times> error option" where
  "Atoi s =
     (let neg = (s \<noteq> [] \<and> hd s = CHR ''-'');
          ds = (if s \<noteq> [] \<and> (hd s = CHR ''-'' \<or> hd s = CHR ''+'') then tl s else s)
      in if ds = [] \<or> \<not> list_all is_digit ds then (0, Some ErrSyntax)
         else (let n = digits_value ds in
               if \<not> neg \<and> n \<ge> 2 ^ 63 then (2 ^ 63 - 1, Some ErrRange)
               else if neg \<and> n > 2 ^ 63 then (- (2 ^ 63), Some ErrRange)
               else (if neg then - n else n, None)))"

subsection \<open>backend/internal/http: middleware and handlers\<close>

text \<open>
  A handler maps the context and the store to a response and the store it leaves. The
  keys of a \<open>fiber.Map\<close> are written in the order of the source.
\<close>

type_synonym Handler = "Ctx \<Rightarrow> tables \<Rightarrow> Response \<times> tables"

text \<open>\<open>RequireAuth\<close>; \<open>next\<close> is the rest of the chain, what \<open>c.Next()\<close> runs.\<close>

definition RequireAuth :: "Config \<Rightarrow> libs \<Rightarrow> Handler \<Rightarrow> Handler" where
  "RequireAuth cfg l next c db =
     (let authHeader = Ctx_Get c ''Authorization'';
          tokenStr = ExtractBearerToken authHeader
      in if tokenStr = [] then
           (JSONError StatusUnauthorized ''Missing or malformed token'', db)
         else
           (case ValidateJWT cfg l tokenStr of
              Inl err \<Rightarrow> (JSONError StatusUnauthorized (Error_msg err), db)
            | Inr claims \<Rightarrow> next (c\<lparr>locals := (locals c)(''email'' := claims ''email'')\<rparr>) db))"

definition LoginWithUserService ::
    "Config \<Rightarrow> libs \<Rightarrow> engine \<Rightarrow> loginReq option \<Rightarrow> tables \<Rightarrow> Response" where
  "LoginWithUserService cfg l eng body db =
     (case body of
        None \<Rightarrow> JSONError StatusBadRequest ''invalid payload''
      | Some req \<Rightarrow>
          (let req = req\<lparr>loginReq.Username := TrimSpace (loginReq.Username req)\<rparr> in
           case userService_Authenticate l eng db (loginReq.Username req) (loginReq.Password req) of
             Inl err \<Rightarrow> JSONError StatusUnauthorized ''invalid credentials''
           | Inr u \<Rightarrow>
               (case GenerateJWT cfg l (Username u) of
                  Inl err \<Rightarrow> JSONError StatusInternalServerError ''could not generate token''
                | Inr token \<Rightarrow>
                    (StatusOK,
                     JObject [(''token'', JString token),
                              (''user'', JObject [(''id'', JString (User.ID u)),
                                                  (''username'', JString (Username u)),
                                                  (''role'', JString (Role u)),
                                                  (''email'', JString (Email u))])]))))"

text \<open>
  \<open>CreateUser\<close> and \<open>UpdateUser\<close> assert \<open>c.Locals("email").(string)\<close>; where the assertion
  panics the handler produces nothing (\<open>None\<close>).
\<close>

definition CreateUser ::
    "libs \<Rightarrow> engine \<Rightarrow> createUserReq option \<Rightarrow> Ctx \<Rightarrow> tables \<Rightarrow> (Response \<times> tables) option" where
  "CreateUser l eng body c db =
     (case body of
        None \<Rightarrow> Some (JSONError StatusBadRequest ''invalid payload'', db)
      | Some req \<Rightarrow>
          (case Locals_string c ''email'' of
             None \<Rightarrow> None
           | Some by \<Rightarrow>
               (let u = \<lparr>ID = [], Username = createUserReq.Username req,
                         Email = createUserReq.Email req, Role = createUserReq.Role req,
                         ProfilePhoto = createUserReq.ProfilePhoto req, LastLogin = None,
                         PasswordHash = [], CreatedBy = by, CreatedAt = 0,
                         UpdatedBy = by, UpdatedAt = 0\<rparr>
                in case userService_Create l eng u (createUserReq.Password req) db of
                     (Some err, u', db') \<Rightarrow>
                       Some (JSONError StatusInternalServerError (Error_msg err), db')
                   | (None, u', db') \<Rightarrow>
                       Some ((StatusCreated, JObject [(''id'', JString (User.ID u'))]), db'))))"

definition UpdateUser ::
    "engine \<Rightarrow> User option \<Rightarrow> Ctx \<Rightarrow> tables \<Rightarrow> (Response \<times> tables) option" where
  "UpdateUser eng body c db =
     (case body of
        None \<Rightarrow> Some (JSONError StatusBadRequest ''invalid payload'', db)
      | Some u \<Rightarrow>
          (case Locals_string c ''email'' of
             None \<Rightarrow> None
           | Some by \<Rightarrow>
               (case userService_Update eng (u\<lparr>UpdatedBy := by\<rparr>) db of
                  (Some err, db') \<Rightarrow>
                    Some (JSONError StatusInternalServerError (Error_msg err), db')
                | (None, db') \<Rightarrow>
                    Some ((StatusOK, JObject [(''message'', JString ''updated'')]), db'))))"

definition DeleteUser :: "engine \<Rightarrow> Handler" where
  "DeleteUser eng c db =
     (let i = Ctx_Params c ''id'' in
      if i = [] then (JSONError StatusBadRequest ''missing id'', db)
      else (case userService_Delete eng i db of
              (Some err, db') \<Rightarrow> (JSONError StatusInternalServerError (Error_msg err), db')
            | (None, db') \<Rightarrow> ((StatusOK, JObject [(''message'', JString ''deleted'')]), db')))"

definition GetUserByID :: "engine \<Rightarrow> Handler" where
  "GetUserByID eng c db =
     (let i = Ctx_Params c ''id'' in
      if i = [] then (JSONError StatusBadRequest ''missing id'', db)
      else (case userService_FindByID eng db i of
              Inl err \<Rightarrow> (JSONError StatusNotFound ''user not found'', db)
            | Inr u \<Rightarrow> ((StatusOK, User_json (u\<lparr>PasswordHash := []\<rparr>)), db)))"

definition ListUsers :: "engine \<Rightarrow> Handler" where
  "ListUsers eng c db =
     (let limit = fst (Atoi (Ctx_Query c ''limit'' ''50''));
          offset = fst (Atoi (Ctx_Query c ''offset'' ''0''))
      in case userService_List eng db limit offset of
           Inl err \<Rightarrow> (JSONError StatusInternalServerError (Error_msg err), db)
         | Inr us \<Rightarrow> ((StatusOK, Users_json us), db))"

definition CreateProduct :: "engine \<Rightarrow> Product option \<Rightarrow> Handler" where
  "CreateProduct eng body c db =
     (case body of
        None \<Rightarrow> (JSONError StatusBadRequest ''invalid payload'', db)
      | Some p \<Rightarrow>
          (case productService_Create eng p db of
             (Some err, db') \<Rightarrow> (JSONError StatusInternalServerError (Error_msg err), db')
           | (None, db') \<Rightarrow>
               ((StatusCreated, JObject [(''message'', JString ''Product created'')]), db')))"

subsection \<open>The seeded store (migration 002)\<close>

text \<open>
  Migration 002 inserts one user: username \<open>admin\<close>, email \<open>admin@luxtrack.com\<close>, the
  placeholder \<open>$2a$12$REPLACE_WITH_HASH\<close> as password hash, and no value for
  \<open>profile_photo\<close>, \<open>created_by\<close>, \<open>updated_by\<close>. \<open>t0\<close> is the time of the migration.
\<close>

definition seed_admin :: "time \<Rightarrow> user_row" where
  "seed_admin t0 =
     \<lparr>id = ''11111111-1111-1111-1111-111111111111'', username = ''admin'',
      password_hash = ''$2a$12$REPLACE_WITH_HASH'', role = ''admin'',
      email = Some ''admin@luxtrack.com'', profile_photo = None, last_login = None,
      created_by = None, created_at = t0, updated_by = None, updated_at = t0\<rparr>"

definition seeded :: "time \<Rightarrow> tables" where
  "seeded t0 = \<lparr>users = [seed_admin t0], products = []\<rparr>"

text \<open>Two stores that differ at most in the password hashes of their users.\<close>

definition no_hash :: "user_row \<Rightarrow> user_row" where
  "no_hash r = r\<lparr>password_hash := []\<rparr>"

definition same_but_hashes :: "tables \<Rightarrow> tables \<Rightarrow> bool" where
  "same_but_hashes db db' =
     (map no_hash (users db) = map no_hash (users db') \<and> products db = products db')"

subsection \<open>The transaction form of the client (frontend/src/App.js, TransactionForm)\<close>

text \<open>
  A JavaScript number is carried as the value it denotes: a quantity (the result of
  \<open>parseInt\<close>) as an integer, a price (a finite double) as a rational. The form code
  embedded here, \<open>handleSubmit\<close>, copies these values and does no arithmetic on them.
  \<open>calculateTotal\<close>, which the form calls only to display a total, adds and multiplies
  in IEEE-754 double arithmetic; it is not embedded, and its result is never posted.
\<close>

record item =
  product_id :: string
  quantity :: int
  unit_price :: rat

record FormData =
  transaction_type :: string
  customer_id :: string
  payment_method :: string
  shipping_method :: string
  "notes" :: string

record TransactionForm =
  formData :: FormData
  selectedProducts :: "item list"
  loading :: bool
  error :: string

text \<open>
  The JSON body of \<open>POST /api/transactions\<close>. \<open>handleSubmit\<close> writes every member but
  \<open>total_amount\<close>; that member stands for a total that some other client may send.
\<close>

record submitData =
  transaction_type :: string
  customer_id :: string
  payment_method :: string
  shipping_method :: "string option"
  "notes" :: "string option"
  items :: "item list"
  total_amount :: "rat option"

text \<open>\<open>s || null\<close> on a string: the empty string is falsy.\<close>

definition or_null :: "string \<Rightarrow> string option" where
  "or_null v = (if v = [] then None else Some v)"

text \<open>
  \<open>handleSubmit\<close>. \<open>post\<close> is the server behind \<open>axios.post\<close>: it answers with an error
  (and its \<open>detail\<close>, if any) or with success, and leaves a store. The result is the form
  state, whether \<open>onSuccess\<close> was called, and the store.
\<close>

definition handleSubmit ::
    "(submitData \<Rightarrow> 's \<Rightarrow> (string option + unit) \<times> 's) \<Rightarrow> TransactionForm \<Rightarrow> 's
      \<Rightarrow> TransactionForm \<times> bool \<times> 's" where
  "handleSubmit post st s =
     (let st = st\<lparr>loading := True, error := []\<rparr> in
      if length (selectedProducts st) = 0 then
        (st\<lparr>error := ''Please select at least one product'', loading := False\<rparr>, False, s)
      else
        (let data = \<lparr>transaction_type = FormData.transaction_type (formData st),
                     customer_id = FormData.customer_id (formData st),
                     payment_method = FormData.payment_method (formData st),
                     shipping_method = or_null (FormData.shipping_method (formData st)),
                     notes = or_null (FormData.notes (formData st)),
                     items = map (\<lambda>item. \<lparr>product_id = item.product_id item,
                                              quantity = quantity item,
                                              unit_price = unit_price item\<rparr>)
                                 (selectedProducts st),
                     total_amount = None\<rparr>
         in case post data s of
              (Inr _, s') \<Rightarrow> (st\<lparr>loading := False\<rparr>, True, s')
            | (Inl detail, s') \<Rightarrow>
                (st\<lparr>error := (case detail of
                                 None \<Rightarrow> ''Failed to create transaction''
                               | Some d \<Rightarrow> if d = [] then ''Failed to create transaction'' else d),
                    loading := False\<rparr>, False, s')))"

subsection \<open>Transaction creation on the server\<close>

text \<open>
  Modelled from the spec: the service behind \<open>POST /api/transactions\<close> (the Python
  backend/server.py that test_result.md reports on) is not among the sources; the Go
  backend has no transaction service. The store of that service, after sections 3 and 4.3
  of the specification: products with a status, transactions, transaction line items.
\<close>

datatype product_status = available | reserved | sold

record transaction =
  tx_id :: string
  tx_type :: string
  tx_customer_id :: string
  tx_payment_method :: string
  tx_shipping_method :: "string option"
  tx_notes :: "string option"
  tx_total_amount :: rat

record line_item =
  li_transaction_id :: string
  li_product_id :: string
  li_quantity :: int
  li_unit_price :: rat
  li_total_price :: rat

record store =
  product_status_of :: "string \<rightharpoonup> product_status"
  transactions :: "transaction list"
  line_items :: "line_item list"

text \<open>
  Modelled from the spec: the three kinds of write of section 4.3 (insert the transaction
  header, insert a line item, update a referenced product's status).
\<close>

datatype store_op =
    InsertTransaction transaction
  | InsertLineItem line_item
  | UpdateProductStatus string product_status

datatype api_error = ValidationError string | UnknownProduct string | StoreError string

text \<open>
  Modelled from the spec: what the specification leaves to the deployment. The identifier
  assigned to a new transaction, the status a sold product moves to (sold, or reserved,
  per business rule), and the store's refusals: any write may fail.
\<close>

record server =
  new_id :: string
  sale_status :: product_status
  op_fault :: "store_op \<Rightarrow> store \<Rightarrow> string option"

text \<open>
  Modelled from the spec: one write inside the store transaction. A write the store
  refuses fails; a line item or a status update that references a nonexistent product
  fails.
\<close>

definition apply_op :: "server \<Rightarrow> store_op \<Rightarrow> store \<Rightarrow> api_error + store" where
  "apply_op srv op s =
     (case op_fault srv op s of
        Some m \<Rightarrow> Inl (StoreError m)
      | None \<Rightarrow>
          (case op of
             InsertTransaction t \<Rightarrow> Inr (s\<lparr>transactions := transactions s @ [t]\<rparr>)
           | InsertLineItem li \<Rightarrow>
               if product_status_of s (li_product_id li) = None
               then Inl (UnknownProduct (li_product_id li))
               else Inr (s\<lparr>line_items := line_items s @ [li]\<rparr>)
           | UpdateProductStatus p st \<Rightarrow>
               if product_status_of s p = None then Inl (UnknownProduct p)
               else Inr (s\<lparr>product_status_of := (product_status_of s)(p \<mapsto> st)\<rparr>)))"

text \<open>Modelled from the spec: the writes of one request in sequence, stopping at the first failure.\<close>

fun run_ops :: "server \<Rightarrow> store_op list \<Rightarrow> store \<Rightarrow> api_error + store" where
  "run_ops srv [] s = Inr s"
| "run_ops srv (op # ops) s =
     (case apply_op srv op s of
        Inl e \<Rightarrow> Inl e
      | Inr s' \<Rightarrow> run_ops srv ops s')"

text \<open>Modelled from the spec: total = the sum over the line items of quantity times unit price.\<close>

definition items_total :: "item list \<Rightarrow> rat" where
  "items_total its = (\<Sum>it \<leftarrow> its. of_int (quantity it) * unit_price it)"

text \<open>Modelled from the spec: the header row and the line item rows of a request.\<close>

definition header_of :: "server \<Rightarrow> submitData \<Rightarrow> transaction" where
  "header_of srv req =
     \<lparr>tx_id = new_id srv, tx_type = submitData.transaction_type req,
      tx_customer_id = submitData.customer_id req,
      tx_payment_method = submitData.payment_method req,
      tx_shipping_method = submitData.shipping_method req,
      tx_notes = submitData.notes req,
      tx_total_amount = items_total (items req)\<rparr>"

definition line_item_of :: "server \<Rightarrow> item \<Rightarrow> line_item" where
  "line_item_of srv it =
     \<lparr>li_transaction_id = new_id srv, li_product_id = item.product_id it,
      li_quantity = quantity it, li_unit_price = unit_price it,
      li_total_price = of_int (quantity it) * unit_price it\<rparr>"

text \<open>
  Modelled from the spec: the writes of one request, in the order of section 4.3. Insert
  the transaction header; insert each line item; then, for each referenced product, if
  the transaction type is a sale, move the product to the sale status.
\<close>

definition ops_of :: "server \<Rightarrow> submitData \<Rightarrow> store_op list" where
  "ops_of srv req =
     InsertTransaction (header_of srv req)
     # map (\<lambda>it. InsertLineItem (line_item_of srv it)) (items req)
     @ (if submitData.transaction_type req = ''sale''
        then map (\<lambda>it. UpdateProductStatus (item.product_id it) (sale_status srv)) (items req)
        else [])"

text \<open>
  Modelled from the spec: transaction creation (section 4.3). Reject an empty line item
  list with a validation error. Otherwise, within one store transaction, compute the
  total and run the writes. The writes work on the transaction's own view of the store;
  a failure rolls back, which leaves the store as it was; success commits the view.
\<close>

definition create_transaction ::
    "server \<Rightarrow> submitData \<Rightarrow> store \<Rightarrow> (api_error + transaction) \<times> store" where
  "create_transaction srv req s =
     (if items req = [] then (Inl (ValidationError ''at least one line item is required''), s)
      else
        (case run_ops srv (ops_of srv req) s of
           Inl e \<Rightarrow> (Inl e, s)
         | Inr s' \<Rightarrow> (Inr (header_of srv req), s')))"

text \<open>Modelled from the spec: the HTTP face of the service, as the form's \<open>post\<close> sees it.\<close>

fun api_error_detail :: "api_error \<Rightarrow> string" where
  "api_error_detail (ValidationError m) = m"
| "api_error_detail (UnknownProduct p) = ''Product not found''"
| "api_error_detail (StoreError m) = m"

definition post_transactions :: "server \<Rightarrow> submitData \<Rightarrow> store \<Rightarrow> (string option + unit) \<times> store" where
  "post_transactions srv req s =
     (case create_transaction srv req s of
        (Inl e, s') \<Rightarrow> (Inl (Some (api_error_detail e)), s')
      | (Inr t, s') \<Rightarrow> (Inr (), s'))"

subsection \<open>All or nothing\<close>

text \<open>
  What section 4.2 of the specification asks of a mutating operation that sends the
  statement \<open>st\<close> to the store \<open>db\<close> and ends with the error \<open>err\<close> and the store
  \<open>db'\<close>: either there is no error, the store refused nothing and \<open>db'\<close> is \<open>db\<close>
  with the whole statement applied, or \<open>db'\<close> is \<open>db\<close> and the error is the one the
  store gave at BEGIN, at the statement, or at COMMIT.
\<close>

definition all_or_nothing :: "engine \<Rightarrow> stmt \<Rightarrow> tables \<Rightarrow> error option \<times> tables \<Rightarrow> bool" where
  "all_or_nothing eng st db r =
     (case fst r of
        None \<Rightarrow>
          snd r = apply_stmt (NOW eng) st db
          \<and> begin_fault eng = None \<and> exec_fault eng st db = None \<and> commit_fault eng = None
      | Some e \<Rightarrow>
          snd r = db
          \<and> (begin_fault eng = Some e \<or> exec_fault eng st db = Some e \<or> commit_fault eng = Some e))"

subsection \<open>Concrete inputs\<close>

text \<open>A database server that refuses nothing, a small store, an empty request context.\<close>

definition eng_ok :: engine where
  "eng_ok = \<lparr>begin_fault = None, exec_fault = (\<lambda>st t. None), commit_fault = None,
             query_fault = None, NOW = 1000\<rparr>"

definition demo_row :: "string \<Rightarrow> string \<Rightarrow> string \<Rightarrow> time \<Rightarrow> user_row" where
  "demo_row i n h t =
     \<lparr>id = i, username = n, password_hash = h, role = ''staff'', email = Some (n @ ''@luxtrack.com''),
      profile_photo = Some [], last_login = None, created_by = Some [], created_at = t,
      updated_by = Some [], updated_at = t\<rparr>"

definition demo_db :: tables where
  "demo_db = \<lparr>users = [demo_row ''u1'' ''ann'' ''$2a$10$nna-wp'' 10, demo_row ''u2'' ''bob'' ''$2a$10$bob-wp'' 30,
                        demo_row ''u3'' ''cyd'' ''$2a$10$dyc-wp'' 20],
              products = []\<rparr>"

definition demo_ctx :: Ctx where
  "demo_ctx = \<lparr>headers = Map.empty, params = Map.empty, queries = Map.empty, locals = Map.empty\<rparr>"

text \<open>
  Stand-ins for the libraries: a reversible toy hash in place of bcrypt, a token that is
  the key followed by the subject in place of a signed JWT; and a variant whose password
  comparison accepts everything.
\<close>

definition demo_libs :: libs where
  "demo_libs =
     \<lparr>uuid_NewString = ''0b9d6c1e-5a2f-4c3b-9e47-6f1d2a3b4c5d'',
      bcrypt_GenerateFromPassword = (\<lambda>plain. Inr (''$2a$10$'' @ rev plain)),
      bcrypt_CompareHashAndPassword =
        (\<lambda>hash plain. if hash = ''$2a$10$'' @ rev plain then None
                      else Some (ErrorString ''crypto/bcrypt: hashedPassword is not the hash of the given password'')),
      time_Now = 1700000000,
      jwt_SignedString =
        (\<lambda>key claims. case claims ''email'' of
                         Some (JString e) \<Rightarrow> Inr (key @ '':'' @ e)
                       | _ \<Rightarrow> Inl (ErrorString ''no subject'')),
      jwt_Parse =
        (\<lambda>tokenStr key. if prefix (key @ '':'') tokenStr
                          then Inr \<lparr>Valid = True,
                                    Claims = MapClaims [''email'' \<mapsto> JString (drop (length key + 1) tokenStr)]\<rparr>
                          else Inl (ErrorString ''token signature is invalid''))\<rparr>"

definition lenient_libs :: libs where
  "lenient_libs = demo_libs\<lparr>bcrypt_CompareHashAndPassword := (\<lambda>hash plain. None)\<rparr>"

definition demo_cfg :: Config where
  "demo_cfg = \<lparr>AppName = ''LuxTrack'', AppEnv = ''development'', AppPort = ''8080'',
               DBHost = ''localhost'', DBPort = 5432, DBUser = ''postgres'', DBPass = [],
               DBName = ''luxtrack'', DebugLog = False, JwtSecret = ''k''\<rparr>"

text \<open>The small store again, with every password hash replaced.\<close>

definition demo_db_rehashed :: tables where
  "demo_db_rehashed = demo_db\<lparr>users := map (\<lambda>r. r\<lparr>password_hash := ''$2a$10$other''\<rparr>) (users demo_db)\<rparr>"

text \<open>A database server that refuses every COMMIT, a product, a user.\<close>

definition eng_no_commit :: engine where
  "eng_no_commit = eng_ok\<lparr>commit_fault := Some (DriverError ''commit failed'')\<rparr>"

definition demo_product :: Product where
  "demo_product =
     \<lparr>Product.ID = ''p1'', Code = ''LVNF0001'', Name = ''Neverfull'', Description = [],
      ConditionID = 1, StatusID = 1, CategoryID = 0, BrandID = 7, SellerID = ''c1'',
      Price = 0, PurchasePrice = 0, StockQty = 1, CreatedBy = [], CreatedAt = 0,
      UpdatedBy = [], UpdatedAt = 0\<rparr>"

definition demo_user :: User where
  "demo_user =
     \<lparr>ID = [], Username = ''dee'', Email = ''dee@luxtrack.com'', Role = ''staff'',
      ProfilePhoto = [], LastLogin = None, PasswordHash = [], CreatedBy = ''ann@luxtrack.com'',
      CreatedAt = 0, UpdatedBy = ''ann@luxtrack.com'', UpdatedAt = 0\<rparr>"

text \<open>A request for user \<open>u1\<close> with the given Authorization header.\<close>

definition ctx_auth :: "string \<Rightarrow> Ctx" where
  "ctx_auth h = demo_ctx\<lparr>headers := [''Authorization'' \<mapsto> h], params := [''id'' \<mapsto> ''u1'']\<rparr>"

text \<open>
  A shop with two products on offer, a server that assigns the identifier \<open>t1\<close> and
  refuses nothing, one that refuses every status update, and three requests: a sale of
  both products, a sale that also names a product the shop does not have, and a request
  without line items that claims a total.
\<close>

definition demo_store :: store where
  "demo_store = \<lparr>product_status_of = [''p1'' \<mapsto> available, ''p2'' \<mapsto> available],
                 transactions = [], line_items = []\<rparr>"

definition demo_server :: server where
  "demo_server = \<lparr>new_id = ''t1'', sale_status = sold, op_fault = (\<lambda>op s. None)\<rparr>"

definition failing_server :: server where
  "failing_server =
     demo_server\<lparr>op_fault := (\<lambda>op s. case op of
                                      UpdateProductStatus p st \<Rightarrow> Some ''deadlock detected''
                                    | _ \<Rightarrow> None)\<rparr>"

definition demo_sale :: submitData where
  "demo_sale =
     \<lparr>transaction_type = ''sale'', customer_id = ''c1'', payment_method = ''cash'',
      shipping_method = None, notes = None,
      items = [\<lparr>product_id = ''p1'', quantity = 1, unit_price = 2500\<rparr>,
               \<lparr>product_id = ''p2'', quantity = 2, unit_price = 199 / 2\<rparr>],
      total_amount = Some 1\<rparr>"

definition bad_sale :: submitData where
  "bad_sale = demo_sale\<lparr>items := items demo_sale @ [\<lparr>product_id = ''p9'', quantity = 1, unit_price = 10\<rparr>]\<rparr>"

definition empty_sale :: submitData where
  "empty_sale = demo_sale\<lparr>items := []\<rparr>"

definition demo_form :: TransactionForm where
  "demo_form =
     \<lparr>formData = \<lparr>FormData.transaction_type = ''sale'', FormData.customer_id = ''c1'',
                   FormData.payment_method = ''cash'', FormData.shipping_method = [],
                   FormData.notes = []\<rparr>,
      selectedProducts = [], loading = False, error = []\<rparr>"

section \<open>Login\<close>

text \<open>
  C6. Every failed login gets the same response: whenever \<open>Authenticate\<close> returns an
  error, \<open>LoginWithUserService\<close> answers 401 with the message "invalid credentials".
  An unknown username makes \<open>Authenticate\<close> fail (with \<open>sql.ErrNoRows\<close>) and so does
  a password that does not verify, so the two cases are not told apart in the response.
\<close>

theorem failed_login_same_response:
  "(\<forall>err. userService_Authenticate l eng db (TrimSpace (loginReq.Username req)) (loginReq.Password req) = Inl err
       \<longrightarrow> LoginWithUserService cfg l eng (Some req) db
             = JSONError StatusUnauthorized ''invalid credentials'')
   \<and> (query_fault eng = None \<and> find (\<lambda>r. username r = name') (users db) = None
       \<longrightarrow> userService_Authenticate l eng db name' plain = Inl ErrNoRows)
   \<and> (\<forall>u e. userRepository_FindByUsername eng db name' = Inr u
              \<and> password_Verify l plain (PasswordHash u) = Some e
       \<longrightarrow> userService_Authenticate l eng db name' plain = Inl (ErrorString ''invalid credentials''))"
proof (intro conjI allI impI)
  fix err
  assume "userService_Authenticate l eng db (TrimSpace (loginReq.Username req)) (loginReq.Password req) = Inl err"
  then show "LoginWithUserService cfg l eng (Some req) db
             = JSONError StatusUnauthorized ''invalid credentials''"
    by (simp add: LoginWithUserService_def Let_def)
next
  assume "query_fault eng = None \<and> find (\<lambda>r. username r = name') (users db) = None"
  then show "userService_Authenticate l eng db name' plain = Inl ErrNoRows"
    by (simp add: userService_Authenticate_def userRepository_FindByUsername_def QueryRow_users_def)
next
  fix u e
  assume "userRepository_FindByUsername eng db name' = Inr u
              \<and> password_Verify l plain (PasswordHash u) = Some e"
  then show "userService_Authenticate l eng db name' plain = Inl (ErrorString ''invalid credentials'')"
    by (simp add: userService_Authenticate_def)
qed

theorem failed_login_same_response_witness:
  "LoginWithUserService demo_cfg demo_libs eng_ok
      (Some \<lparr>loginReq.Username = ''zed'', loginReq.Password = ''pw-ann''\<rparr>) demo_db
     = (401, JObject [(''error'', JString ''invalid credentials'')])
   \<and> LoginWithUserService demo_cfg demo_libs eng_ok
      (Some \<lparr>loginReq.Username = ''ann'', loginReq.Password = ''pw-bob''\<rparr>) demo_db
     = (401, JObject [(''error'', JString ''invalid credentials'')])"
proof -
  have unknown: "query_fault eng_ok = None \<and> find (\<lambda>r. username r = ''zed'') (users demo_db) = None"
    by (simp add: eng_ok_def demo_db_def demo_row_def)
  have found: "userRepository_FindByUsername eng_ok demo_db ''ann''
                 = Inr (projr (userRepository_FindByUsername eng_ok demo_db ''ann''))"
    by (simp add: userRepository_FindByUsername_def QueryRow_users_def eng_ok_def demo_db_def
          demo_row_def Scan_User_def)
  have wrong: "password_Verify demo_libs ''pw-bob''
                 (PasswordHash (projr (userRepository_FindByUsername eng_ok demo_db ''ann'')))
               = Some (ErrorString ''crypto/bcrypt: hashedPassword is not the hash of the given password'')"
    by (simp add: userRepository_FindByUsername_def QueryRow_users_def eng_ok_def demo_db_def
          demo_row_def Scan_User_def password_Verify_def demo_libs_def)
  note z = failed_login_same_response
     [of demo_libs eng_ok demo_db "\<lparr>loginReq.Username = ''zed'', loginReq.Password = ''pw-ann''\<rparr>"
         demo_cfg "''zed''" "''pw-ann''"]
  note a = failed_login_same_response
     [of demo_libs eng_ok demo_db "\<lparr>loginReq.Username = ''ann'', loginReq.Password = ''pw-bob''\<rparr>"
         demo_cfg "''ann''" "''pw-bob''"]
  have tz: "TrimSpace ''zed'' = ''zed''" and ta: "TrimSpace ''ann'' = ''ann''"
    by (simp_all add: TrimSpace_def is_space_def)
  from z unknown have r1: "LoginWithUserService demo_cfg demo_libs eng_ok
      (Some \<lparr>loginReq.Username = ''zed'', loginReq.Password = ''pw-ann''\<rparr>) demo_db
     = JSONError StatusUnauthorized ''invalid credentials''"
    by (simp add: tz)
  from a found wrong have r2: "LoginWithUserService demo_cfg demo_libs eng_ok
      (Some \<lparr>loginReq.Username = ''ann'', loginReq.Password = ''pw-bob''\<rparr>) demo_db
     = JSONError StatusUnauthorized ''invalid credentials''"
    by (metis loginReq.select_convs(1) loginReq.select_convs(2) ta)
  from r1 r2 show ?thesis by (simp add: JSONError_def StatusUnauthorized_def)
qed

text \<open>
  C4, as stated, fails on the seeded store.
  The seeded admin cannot log in with its email address: login looks the name up in the
  \<open>username\<close> column, where the seed stores \<open>admin\<close>. This holds even with a
  password comparison that accepts everything.
\<close>

theorem seeded_admin_login_counterexample:
  "LoginWithUserService demo_cfg lenient_libs eng_ok
      (Some \<lparr>loginReq.Username = ''admin@luxtrack.com'', loginReq.Password = ''admin123''\<rparr>)
      (seeded 0)
     = (401, JObject [(''error'', JString ''invalid credentials'')])"
  by (simp add: LoginWithUserService_def Let_def userService_Authenticate_def
        userRepository_FindByUsername_def QueryRow_users_def eng_ok_def seeded_def seed_admin_def
        TrimSpace_def is_space_def JSONError_def StatusUnauthorized_def)

text \<open>
  C4, amended. Login with the username of a stored user whose row can be scanned: if the
  password verifies against the stored hash and the token is signed, the response is 200
  with the token and a user object (id, username, role, email); if the password does not
  verify, the response is 401 "invalid credentials" and carries no token.
\<close>

theorem login_by_username:
  assumes "userRepository_FindByUsername eng db (TrimSpace (loginReq.Username req)) = Inr u"
  shows "(password_Verify l (loginReq.Password req) (PasswordHash u) = None
            \<and> GenerateJWT cfg l (User.Username u) = Inr token
          \<longrightarrow> LoginWithUserService cfg l eng (Some req) db
                = (StatusOK,
                   JObject [(''token'', JString token),
                            (''user'', JObject [(''id'', JString (User.ID u)),
                                                (''username'', JString (User.Username u)),
                                                (''role'', JString (User.Role u)),
                                                (''email'', JString (User.Email u))])]))
       \<and> (password_Verify l (loginReq.Password req) (PasswordHash u) \<noteq> None
          \<longrightarrow> LoginWithUserService cfg l eng (Some req) db
                  = JSONError StatusUnauthorized ''invalid credentials''
              \<and> ''token'' \<notin> json_keys (snd (LoginWithUserService cfg l eng (Some req) db)))"
  using assms
  by (auto simp: LoginWithUserService_def Let_def userService_Authenticate_def JSONError_def)

theorem login_by_username_witness:
  "LoginWithUserService demo_cfg demo_libs eng_ok
      (Some \<lparr>loginReq.Username = '' ann'', loginReq.Password = ''pw-ann''\<rparr>) demo_db
     = (200, JObject [(''token'', JString ''k:ann''),
                      (''user'', JObject [(''id'', JString ''u1''), (''username'', JString ''ann''),
                                          (''role'', JString ''staff''),
                                          (''email'', JString ''ann@luxtrack.com'')])])
   \<and> LoginWithUserService demo_cfg demo_libs eng_ok
      (Some \<lparr>loginReq.Username = '' ann'', loginReq.Password = ''pw-bob''\<rparr>) demo_db
     = (401, JObject [(''error'', JString ''invalid credentials'')])"
proof -
  let ?u = "projr (userRepository_FindByUsername eng_ok demo_db ''ann'')"
  have ts: "TrimSpace '' ann'' = ''ann''"
    by (simp add: TrimSpace_def is_space_def)
  have u: "?u = \<lparr>ID = ''u1'', Username = ''ann'', Email = ''ann@luxtrack.com'', Role = ''staff'',
                  ProfilePhoto = [], LastLogin = None, PasswordHash = ''$2a$10$nna-wp'',
                  CreatedBy = [], CreatedAt = 10, UpdatedBy = [], UpdatedAt = 10\<rparr>"
    and found: "userRepository_FindByUsername eng_ok demo_db ''ann'' = Inr ?u"
    by (simp_all add: userRepository_FindByUsername_def QueryRow_users_def eng_ok_def demo_db_def
          demo_row_def Scan_User_def)
  have good: "password_Verify demo_libs ''pw-ann'' (PasswordHash ?u) = None"
    and bad: "password_Verify demo_libs ''pw-bob'' (PasswordHash ?u) \<noteq> None"
    by (simp_all add: u password_Verify_def demo_libs_def)
  have tok: "GenerateJWT demo_cfg demo_libs (User.Username ?u) = Inr ''k:ann''"
    by (simp add: u GenerateJWT_def demo_libs_def demo_cfg_def)
  have f1: "userRepository_FindByUsername eng_ok demo_db
              (TrimSpace (loginReq.Username \<lparr>loginReq.Username = '' ann'', loginReq.Password = ''pw-ann''\<rparr>))
            = Inr ?u"
    and f2: "userRepository_FindByUsername eng_ok demo_db
              (TrimSpace (loginReq.Username \<lparr>loginReq.Username = '' ann'', loginReq.Password = ''pw-bob''\<rparr>))
            = Inr ?u"
    using found by (simp_all add: ts)
  from login_by_username[OF f1, of demo_libs demo_cfg "''k:ann''"] good tok
  have a: "LoginWithUserService demo_cfg demo_libs eng_ok
      (Some \<lparr>loginReq.Username = '' ann'', loginReq.Password = ''pw-ann''\<rparr>) demo_db
     = (200, JObject [(''token'', JString ''k:ann''),
                      (''user'', JObject [(''id'', JString ''u1''), (''username'', JString ''ann''),
                                          (''role'', JString ''staff''),
                                          (''email'', JString ''ann@luxtrack.com'')])])"
    by (simp add: u StatusOK_def)
  from login_by_username[OF f2, of demo_libs demo_cfg "''k:ann''"] bad
  have b: "LoginWithUserService demo_cfg demo_libs eng_ok
      (Some \<lparr>loginReq.Username = '' ann'', loginReq.Password = ''pw-bob''\<rparr>) demo_db
     = (401, JObject [(''error'', JString ''invalid credentials'')])"
    by (simp add: JSONError_def StatusUnauthorized_def)
  from a b show ?thesis by simp
qed

section \<open>The password hash stays on the server\<close>

lemma find_no_hash:
  assumes "\<And>r. P (no_hash r) = P r"
  shows "find P (map no_hash rows) = map_option no_hash (find P rows)"
  using assms by (induction rows) auto

lemma Scan_User_False_no_hash: "Scan_User False (no_hash r) = Scan_User False r"
  by (simp add: Scan_User_def no_hash_def split: option.splits)

lemma Scan_User_True_no_hash:
  "Scan_User True (no_hash r) = map_sum (\<lambda>e. e) (\<lambda>u. u\<lparr>PasswordHash := []\<rparr>) (Scan_User True r)"
  by (simp add: Scan_User_def no_hash_def split: option.splits)

lemma scan_rows_no_hash: "scan_rows (map no_hash rows) acc = scan_rows rows acc"
  by (induction rows arbitrary: acc) (simp_all add: Scan_User_False_no_hash split: sum.splits)

lemma sort_key_no_hash:
  "sort_key (\<lambda>r. - created_at r) (map no_hash rows) = map no_hash (sort_key (\<lambda>r. - created_at r) rows)"
proof (induction rows)
  case Nil
  then show ?case by simp
next
  case (Cons r rows)
  have ins: "insort_key (\<lambda>r. - created_at r) (no_hash r) (map no_hash xs)
             = map no_hash (insort_key (\<lambda>r. - created_at r) r xs)" for xs
    by (induction xs) (simp_all add: no_hash_def)
  from Cons show ?case by (simp add: ins)
qed


lemma users_no_hash: "same_but_hashes db db' \<Longrightarrow> map no_hash (users db) = map no_hash (users db')"
  unfolding same_but_hashes_def by simp

lemma QueryRow_users_no_hash:
  assumes "same_but_hashes db db'" and "\<And>r. P (no_hash r) = P r"
  shows "map_sum (\<lambda>e. e) no_hash (QueryRow_users eng db P)
         = map_sum (\<lambda>e. e) no_hash (QueryRow_users eng db' P)"
proof -
  have "map_option no_hash (find P (users db)) = map_option no_hash (find P (users db'))"
    using find_no_hash[of P "users db"] find_no_hash[of P "users db'"]
      users_no_hash[OF assms(1)] assms(2) by simp
  then show ?thesis
    by (auto simp: QueryRow_users_def split: option.splits)
qed

lemma Find_no_hash:
  assumes "map_sum (\<lambda>e. e) no_hash q = map_sum (\<lambda>e. e) no_hash q'"
  shows "map_sum (\<lambda>e. e) (\<lambda>u. u\<lparr>PasswordHash := []\<rparr>) (case q of Inl err \<Rightarrow> Inl err | Inr r \<Rightarrow> Scan_User True r)
       = map_sum (\<lambda>e. e) (\<lambda>u. u\<lparr>PasswordHash := []\<rparr>) (case q' of Inl err \<Rightarrow> Inl err | Inr r \<Rightarrow> Scan_User True r)"
proof (cases q)
  case (Inl e)
  with assms show ?thesis by (cases q') simp_all
next
  case (Inr r)
  with assms obtain r' where q': "q' = Inr r'" and rr: "no_hash r = no_hash r'"
    by (cases q') simp_all
  have "map_sum (\<lambda>e. e) (\<lambda>u. u\<lparr>PasswordHash := []\<rparr>) (Scan_User True r) = Scan_User True (no_hash r)"
    by (simp add: Scan_User_True_no_hash)
  also have "\<dots> = map_sum (\<lambda>e. e) (\<lambda>u. u\<lparr>PasswordHash := []\<rparr>) (Scan_User True r')"
    by (simp add: rr Scan_User_True_no_hash)
  finally show ?thesis by (simp add: Inr q')
qed

lemma FindByID_no_hash:
  assumes "same_but_hashes db db'"
  shows "map_sum (\<lambda>e. e) (\<lambda>u. u\<lparr>PasswordHash := []\<rparr>) (userRepository_FindByID eng db i)
       = map_sum (\<lambda>e. e) (\<lambda>u. u\<lparr>PasswordHash := []\<rparr>) (userRepository_FindByID eng db' i)"
  unfolding userRepository_FindByID_def
  by (rule Find_no_hash, rule QueryRow_users_no_hash[OF assms]) (simp add: no_hash_def)

lemma FindByUsername_no_hash:
  assumes "same_but_hashes db db'"
  shows "map_sum (\<lambda>e. e) (\<lambda>u. u\<lparr>PasswordHash := []\<rparr>) (userRepository_FindByUsername eng db n)
       = map_sum (\<lambda>e. e) (\<lambda>u. u\<lparr>PasswordHash := []\<rparr>) (userRepository_FindByUsername eng db' n)"
  unfolding userRepository_FindByUsername_def
  by (rule Find_no_hash, rule QueryRow_users_no_hash[OF assms]) (simp add: no_hash_def)

lemma List_no_hash:
  assumes "same_but_hashes db db'"
  shows "userRepository_List eng db limit offset = userRepository_List eng db' limit offset"
proof -
  have page: "scan_rows (take n (drop m (sort_key (\<lambda>r. - created_at r) (users db)))) []
            = scan_rows (take n (drop m (sort_key (\<lambda>r. - created_at r) (users db')))) []" for n m
  proof -
    have "map no_hash (take n (drop m (sort_key (\<lambda>r. - created_at r) (users db))))
        = map no_hash (take n (drop m (sort_key (\<lambda>r. - created_at r) (users db'))))"
      using users_no_hash[OF assms]
      by (simp add: take_map[symmetric] drop_map[symmetric] sort_key_no_hash[symmetric]
            del: take_map drop_map)
    then show ?thesis by (metis scan_rows_no_hash)
  qed
  show ?thesis
    by (simp add: userRepository_List_def Query_users_page_def Let_def page split: option.splits)
qed

lemma User_json_keys:
  "json_keys (User_json u) \<subseteq> {''id'', ''username'', ''email'', ''role'', ''profile_photo'',
      ''last_login'', ''created_by'', ''created_at'', ''updated_by'', ''updated_at''}"
  by (auto simp: User_json_def omitempty_def split: option.splits if_splits)


lemma Login_no_hash:
  assumes same: "same_but_hashes db db'"
    and ok: "fst (LoginWithUserService cfg l eng body db) = StatusOK"
    and ok': "fst (LoginWithUserService cfg l eng body db') = StatusOK"
  shows "LoginWithUserService cfg l eng body db = LoginWithUserService cfg l eng body db'"
proof (cases body)
  case None
  then show ?thesis by (simp add: LoginWithUserService_def)
next
  case (Some req)
  let ?n = "TrimSpace (loginReq.Username req)"
  let ?A = "userRepository_FindByUsername eng db ?n"
  let ?A' = "userRepository_FindByUsername eng db' ?n"
  from ok Some obtain u where A: "?A = Inr u"
    and v: "password_Verify l (loginReq.Password req) (PasswordHash u) = None"
    by (auto simp: LoginWithUserService_def Let_def userService_Authenticate_def JSONError_def
          StatusOK_def StatusUnauthorized_def split: sum.splits option.splits)
  from ok' Some obtain u' where A': "?A' = Inr u'"
    and v': "password_Verify l (loginReq.Password req) (PasswordHash u') = None"
    by (auto simp: LoginWithUserService_def Let_def userService_Authenticate_def JSONError_def
          StatusOK_def StatusUnauthorized_def split: sum.splits option.splits)
  from FindByUsername_no_hash[OF same, of eng ?n] A A'
  have eq: "u\<lparr>PasswordHash := []\<rparr> = u'\<lparr>PasswordHash := []\<rparr>" by simp
  have "User.ID u = User.ID (u\<lparr>PasswordHash := []\<rparr>)" by simp
  also have "\<dots> = User.ID u'" by (simp add: eq)
  finally have i: "User.ID u = User.ID u'" .
  have "User.Username u = User.Username (u\<lparr>PasswordHash := []\<rparr>)" by simp
  also have "\<dots> = User.Username u'" by (simp add: eq)
  finally have n: "User.Username u = User.Username u'" .
  have "User.Role u = User.Role (u\<lparr>PasswordHash := []\<rparr>)" by simp
  also have "\<dots> = User.Role u'" by (simp add: eq)
  finally have r: "User.Role u = User.Role u'" .
  have "User.Email u = User.Email (u\<lparr>PasswordHash := []\<rparr>)" by simp
  also have "\<dots> = User.Email u'" by (simp add: eq)
  finally have m: "User.Email u = User.Email u'" .
  have "LoginWithUserService cfg l eng body db
        = (case GenerateJWT cfg l (User.Username u) of
             Inl err \<Rightarrow> JSONError StatusInternalServerError ''could not generate token''
           | Inr token \<Rightarrow>
               (StatusOK,
                JObject [(''token'', JString token),
                         (''user'', JObject [(''id'', JString (User.ID u)),
                                             (''username'', JString (User.Username u)),
                                             (''role'', JString (User.Role u)),
                                             (''email'', JString (User.Email u))])]))"
    using A v Some by (simp add: LoginWithUserService_def Let_def userService_Authenticate_def)
  also have "\<dots> = LoginWithUserService cfg l eng body db'"
    using A' v' Some
    by (simp add: LoginWithUserService_def Let_def userService_Authenticate_def i n r m
          split: sum.splits)
  finally show ?thesis .
qed

lemma Login_keys:
  "json_keys (snd (LoginWithUserService cfg l eng body db))
     \<subseteq> {''error'', ''token'', ''user'', ''id'', ''username'', ''role'', ''email''}"
  by (auto simp: LoginWithUserService_def Let_def JSONError_def split: option.splits sum.splits)

text \<open>
  C5. The stored password hash is never serialized to clients. \<open>model.User\<close> encodes
  to the same JSON whatever its PasswordHash, and to no other keys than those of its
  tagged fields. For two stores that differ at most in the password hashes of their
  users, get-user-by-id and list-users answer alike, and wherever login succeeds on both
  it answers alike; a login response has no key beyond error, token, user, id, username,
  role and email.
\<close>

theorem password_hash_never_serialized:
  "User_json (u\<lparr>PasswordHash := h\<rparr>) = User_json u
   \<and> json_keys (User_json u) \<subseteq> {''id'', ''username'', ''email'', ''role'', ''profile_photo'',
        ''last_login'', ''created_by'', ''created_at'', ''updated_by'', ''updated_at''}
   \<and> json_keys (snd (LoginWithUserService cfg l eng body db))
        \<subseteq> {''error'', ''token'', ''user'', ''id'', ''username'', ''role'', ''email''}
   \<and> (same_but_hashes db db' \<longrightarrow>
         fst (GetUserByID eng c db) = fst (GetUserByID eng c db')
       \<and> fst (ListUsers eng c db) = fst (ListUsers eng c db')
       \<and> (fst (LoginWithUserService cfg l eng body db) = StatusOK
            \<and> fst (LoginWithUserService cfg l eng body db') = StatusOK
          \<longrightarrow> LoginWithUserService cfg l eng body db = LoginWithUserService cfg l eng body db'))"
proof (intro conjI impI)
  show "User_json (u\<lparr>PasswordHash := h\<rparr>) = User_json u"
    by (simp add: User_json_def)
  show "json_keys (User_json u) \<subseteq> {''id'', ''username'', ''email'', ''role'', ''profile_photo'',
        ''last_login'', ''created_by'', ''created_at'', ''updated_by'', ''updated_at''}"
    by (rule User_json_keys)
  show "json_keys (snd (LoginWithUserService cfg l eng body db))
        \<subseteq> {''error'', ''token'', ''user'', ''id'', ''username'', ''role'', ''email''}"
    by (rule Login_keys)
next
  assume same: "same_but_hashes db db'"
  let ?F = "userRepository_FindByID eng db (Ctx_Params c ''id'')"
  let ?F' = "userRepository_FindByID eng db' (Ctx_Params c ''id'')"
  have "map_sum (\<lambda>e. e) (\<lambda>u. u\<lparr>PasswordHash := []\<rparr>) ?F = map_sum (\<lambda>e. e) (\<lambda>u. u\<lparr>PasswordHash := []\<rparr>) ?F'"
    by (rule FindByID_no_hash[OF same])
  then show "fst (GetUserByID eng c db) = fst (GetUserByID eng c db')"
    by (cases ?F; cases ?F') (simp_all add: GetUserByID_def Let_def userService_FindByID_def)
  show "fst (ListUsers eng c db) = fst (ListUsers eng c db')"
    by (simp add: ListUsers_def Let_def userService_List_def List_no_hash[OF same] split: sum.splits)
next
  assume "same_but_hashes db db'"
    and "fst (LoginWithUserService cfg l eng body db) = StatusOK
            \<and> fst (LoginWithUserService cfg l eng body db') = StatusOK"
  then show "LoginWithUserService cfg l eng body db = LoginWithUserService cfg l eng body db'"
    by (simp add: Login_no_hash)
qed


theorem password_hash_never_serialized_witness:
  "same_but_hashes demo_db demo_db_rehashed
   \<and> fst (GetUserByID eng_ok (demo_ctx\<lparr>params := [''id'' \<mapsto> ''u2'']\<rparr>) demo_db_rehashed)
       = (200, JObject [(''id'', JString ''u2''), (''username'', JString ''bob''),
                        (''email'', JString ''bob@luxtrack.com''), (''role'', JString ''staff''),
                        (''created_at'', JTime 30), (''updated_at'', JTime 30)])
   \<and> fst (ListUsers eng_ok demo_ctx demo_db_rehashed) = fst (ListUsers eng_ok demo_ctx demo_db)
   \<and> LoginWithUserService demo_cfg lenient_libs eng_ok
         (Some \<lparr>loginReq.Username = ''bob'', loginReq.Password = ''pw-bob''\<rparr>) demo_db_rehashed
       = (200, JObject [(''token'', JString ''k:bob''),
                        (''user'', JObject [(''id'', JString ''u2''), (''username'', JString ''bob''),
                                            (''role'', JString ''staff''),
                                            (''email'', JString ''bob@luxtrack.com'')])])"
proof -
  let ?req = "Some \<lparr>loginReq.Username = ''bob'', loginReq.Password = ''pw-bob''\<rparr>"
  let ?c = "demo_ctx\<lparr>params := [''id'' \<mapsto> ''u2'']\<rparr>"
  have same: "same_but_hashes demo_db demo_db_rehashed"
    by (simp add: same_but_hashes_def no_hash_def demo_db_rehashed_def demo_db_def demo_row_def)
  have g: "fst (GetUserByID eng_ok ?c demo_db)
       = (200, JObject [(''id'', JString ''u2''), (''username'', JString ''bob''),
                        (''email'', JString ''bob@luxtrack.com''), (''role'', JString ''staff''),
                        (''created_at'', JTime 30), (''updated_at'', JTime 30)])"
    by (simp add: GetUserByID_def Let_def Ctx_Params_def demo_ctx_def userService_FindByID_def
          userRepository_FindByID_def QueryRow_users_def eng_ok_def demo_db_def demo_row_def
          Scan_User_def User_json_def omitempty_def StatusOK_def)
  have ts: "TrimSpace ''bob'' = ''bob''"
    by (simp add: TrimSpace_def is_space_def)
  have l1: "LoginWithUserService demo_cfg lenient_libs eng_ok ?req demo_db
       = (200, JObject [(''token'', JString ''k:bob''),
                        (''user'', JObject [(''id'', JString ''u2''), (''username'', JString ''bob''),
                                            (''role'', JString ''staff''),
                                            (''email'', JString ''bob@luxtrack.com'')])])"
    by (simp add: LoginWithUserService_def Let_def ts userService_Authenticate_def
          userRepository_FindByUsername_def QueryRow_users_def eng_ok_def demo_db_def demo_row_def
          Scan_User_def password_Verify_def lenient_libs_def demo_libs_def GenerateJWT_def
          demo_cfg_def StatusOK_def)
  have l2: "fst (LoginWithUserService demo_cfg lenient_libs eng_ok ?req demo_db_rehashed) = StatusOK"
    by (simp add: LoginWithUserService_def Let_def ts userService_Authenticate_def
          userRepository_FindByUsername_def QueryRow_users_def eng_ok_def demo_db_def demo_row_def
          demo_db_rehashed_def
          Scan_User_def password_Verify_def lenient_libs_def demo_libs_def GenerateJWT_def
          demo_cfg_def StatusOK_def)
  from l1 have l1': "fst (LoginWithUserService demo_cfg lenient_libs eng_ok ?req demo_db) = StatusOK"
    by (simp add: StatusOK_def)
  note t = password_hash_never_serialized
     [where db = demo_db and db' = demo_db_rehashed and eng = eng_ok and c = ?c
        and cfg = demo_cfg and l = lenient_libs and body = ?req]
  note t2 = password_hash_never_serialized
     [where db = demo_db and db' = demo_db_rehashed and eng = eng_ok and c = demo_ctx
        and cfg = demo_cfg and l = lenient_libs and body = ?req]
  from t same g have a: "fst (GetUserByID eng_ok ?c demo_db_rehashed)
       = (200, JObject [(''id'', JString ''u2''), (''username'', JString ''bob''),
                        (''email'', JString ''bob@luxtrack.com''), (''role'', JString ''staff''),
                        (''created_at'', JTime 30), (''updated_at'', JTime 30)])"
    by simp
  from t2 same have b: "fst (ListUsers eng_ok demo_ctx demo_db_rehashed) = fst (ListUsers eng_ok demo_ctx demo_db)"
    by simp
  from t same l1' l2 have "LoginWithUserService demo_cfg lenient_libs eng_ok ?req demo_db
      = LoginWithUserService demo_cfg lenient_libs eng_ok ?req demo_db_rehashed"
    by simp
  with l1 have c: "LoginWithUserService demo_cfg lenient_libs eng_ok ?req demo_db_rehashed
       = (200, JObject [(''token'', JString ''k:bob''),
                        (''user'', JObject [(''id'', JString ''u2''), (''username'', JString ''bob''),
                                            (''role'', JString ''staff''),
                                            (''email'', JString ''bob@luxtrack.com'')])])"
    by simp
  from same a b c show ?thesis by simp
qed

section \<open>The auth middleware\<close>

text \<open>
  C7. \<open>RequireAuth\<close> rejects before it dispatches. If the Authorization header is
  missing, does not start with "Bearer ", or carries a token that \<open>jwt.Parse\<close> (the
  check of signature and expiry under the configured secret) refuses or reports as not
  valid, the response has status 401, the store is untouched, and the outcome is the same
  whatever handler follows, so the handler is not run. Conversely the handler is only
  reached with a token that parsed as valid.
\<close>

theorem RequireAuth_rejects_before_dispatch:
  "(headers c ''Authorization'' = None
      \<or> \<not> prefix ''Bearer '' (Ctx_Get c ''Authorization'')
      \<or> (case jwt_Parse l (ExtractBearerToken (Ctx_Get c ''Authorization'')) (JwtSecret cfg) of
            Inl err \<Rightarrow> True
          | Inr token \<Rightarrow> \<not> Valid token)
    \<longrightarrow> fst (fst (RequireAuth cfg l handler c db)) = StatusUnauthorized
        \<and> snd (RequireAuth cfg l handler c db) = db
        \<and> RequireAuth cfg l handler c db = RequireAuth cfg l handler' c db)
   \<and> (fst (fst (RequireAuth cfg l handler c db)) = StatusUnauthorized
        \<and> snd (RequireAuth cfg l handler c db) = db
        \<and> RequireAuth cfg l handler c db = RequireAuth cfg l handler' c db
       \<or> (\<exists>token claims.
             prefix ''Bearer '' (Ctx_Get c ''Authorization'')
             \<and> jwt_Parse l (drop 7 (Ctx_Get c ''Authorization'')) (JwtSecret cfg) = Inr token
             \<and> Valid token \<and> Claims token = MapClaims claims
             \<and> RequireAuth cfg l handler c db
                 = handler (c\<lparr>locals := (locals c)(''email'' := claims ''email'')\<rparr>) db))"
proof (rule conjI, rule impI)
  assume "headers c ''Authorization'' = None
      \<or> \<not> prefix ''Bearer '' (Ctx_Get c ''Authorization'')
      \<or> (case jwt_Parse l (ExtractBearerToken (Ctx_Get c ''Authorization'')) (JwtSecret cfg) of
            Inl err \<Rightarrow> True
          | Inr token \<Rightarrow> \<not> Valid token)"
  then consider (missing) "Ctx_Get c ''Authorization'' = []"
    | (scheme) "\<not> prefix ''Bearer '' (Ctx_Get c ''Authorization'')"
    | (invalid) "ValidateJWT cfg l (ExtractBearerToken (Ctx_Get c ''Authorization''))
                   = Inl (ErrorString ''invalid or expired token'')"
    by (auto simp: Ctx_Get_def ValidateJWT_def split: sum.splits)
  then have "RequireAuth cfg l handler c db = (JSONError StatusUnauthorized ''Missing or malformed token'', db)
           \<and> RequireAuth cfg l handler' c db = (JSONError StatusUnauthorized ''Missing or malformed token'', db)
         \<or> RequireAuth cfg l handler c db = (JSONError StatusUnauthorized ''invalid or expired token'', db)
           \<and> RequireAuth cfg l handler' c db = (JSONError StatusUnauthorized ''invalid or expired token'', db)"
  proof cases
    case missing
    then show ?thesis by (simp add: RequireAuth_def Let_def ExtractBearerToken_def)
  next
    case scheme
    then show ?thesis by (simp add: RequireAuth_def Let_def ExtractBearerToken_def)
  next
    case invalid
    then show ?thesis by (simp add: RequireAuth_def Let_def)
  qed
  then show "fst (fst (RequireAuth cfg l handler c db)) = StatusUnauthorized
        \<and> snd (RequireAuth cfg l handler c db) = db
        \<and> RequireAuth cfg l handler c db = RequireAuth cfg l handler' c db"
    by (auto simp: JSONError_def)
next
  let ?h = "Ctx_Get c ''Authorization''"
  show "fst (fst (RequireAuth cfg l handler c db)) = StatusUnauthorized
        \<and> snd (RequireAuth cfg l handler c db) = db
        \<and> RequireAuth cfg l handler c db = RequireAuth cfg l handler' c db
       \<or> (\<exists>token claims.
             prefix ''Bearer '' ?h
             \<and> jwt_Parse l (drop 7 ?h) (JwtSecret cfg) = Inr token
             \<and> Valid token \<and> Claims token = MapClaims claims
             \<and> RequireAuth cfg l handler c db
                 = handler (c\<lparr>locals := (locals c)(''email'' := claims ''email'')\<rparr>) db)"
  proof (cases "ExtractBearerToken ?h = []")
    case True
    then show ?thesis by (simp add: RequireAuth_def Let_def JSONError_def)
  next
    case False
    then have p: "prefix ''Bearer '' ?h" and d: "ExtractBearerToken ?h = drop 7 ?h"
      by (auto simp: ExtractBearerToken_def eval_nat_numeral split: if_splits)
    show ?thesis
    proof (cases "ValidateJWT cfg l (ExtractBearerToken ?h)")
      case (Inl err)
      with False show ?thesis by (simp add: RequireAuth_def Let_def JSONError_def)
    next
      case (Inr claims)
      then obtain token where "jwt_Parse l (drop 7 ?h) (JwtSecret cfg) = Inr token"
        "Valid token" "Claims token = MapClaims claims"
        unfolding d
        by (auto simp: ValidateJWT_def split: sum.splits if_splits Claims.splits)
      moreover have "RequireAuth cfg l handler c db
                 = handler (c\<lparr>locals := (locals c)(''email'' := claims ''email'')\<rparr>) db"
        using False Inr by (simp add: RequireAuth_def Let_def)
      ultimately show ?thesis using p by blast
    qed
  qed
qed


theorem RequireAuth_rejects_before_dispatch_witness:
  "fst (RequireAuth demo_cfg demo_libs (DeleteUser eng_ok) (demo_ctx\<lparr>params := [''id'' \<mapsto> ''u1'']\<rparr>) demo_db)
     = (401, JObject [(''error'', JString ''Missing or malformed token'')])
   \<and> snd (RequireAuth demo_cfg demo_libs (DeleteUser eng_ok) (demo_ctx\<lparr>params := [''id'' \<mapsto> ''u1'']\<rparr>) demo_db)
     = demo_db
   \<and> snd (RequireAuth demo_cfg demo_libs (DeleteUser eng_ok) (ctx_auth ''Basic k:ann'') demo_db) = demo_db
   \<and> snd (RequireAuth demo_cfg demo_libs (DeleteUser eng_ok) (ctx_auth ''Bearer x:ann'') demo_db) = demo_db
   \<and> fst (fst (RequireAuth demo_cfg demo_libs (DeleteUser eng_ok) (ctx_auth ''Bearer x:ann'') demo_db)) = 401
   \<and> map id (users (snd (RequireAuth demo_cfg demo_libs (DeleteUser eng_ok) (ctx_auth ''Bearer k:ann'') demo_db)))
     = [''u2'', ''u3'']"
proof -
  let ?c0 = "demo_ctx\<lparr>params := [''id'' \<mapsto> ''u1'']\<rparr>"
  have h0: "headers ?c0 ''Authorization'' = None"
    by (simp add: demo_ctx_def)
  have h1: "\<not> prefix ''Bearer '' (Ctx_Get (ctx_auth ''Basic k:ann'') ''Authorization'')"
    by (simp add: Ctx_Get_def ctx_auth_def)
  have h2: "(case jwt_Parse demo_libs
                   (ExtractBearerToken (Ctx_Get (ctx_auth ''Bearer x:ann'') ''Authorization''))
                   (JwtSecret demo_cfg) of
              Inl err \<Rightarrow> True
            | Inr token \<Rightarrow> \<not> Valid token)"
    by (simp add: Ctx_Get_def ctx_auth_def ExtractBearerToken_def demo_libs_def demo_cfg_def)
  note t0 = RequireAuth_rejects_before_dispatch
      [where c = ?c0 and l = demo_libs and cfg = demo_cfg and handler = "DeleteUser eng_ok"
         and handler' = "DeleteUser eng_ok" and db = demo_db]
  note t1 = RequireAuth_rejects_before_dispatch
      [where c = "ctx_auth ''Basic k:ann''" and l = demo_libs and cfg = demo_cfg
         and handler = "DeleteUser eng_ok" and handler' = "DeleteUser eng_ok" and db = demo_db]
  note t2 = RequireAuth_rejects_before_dispatch
      [where c = "ctx_auth ''Bearer x:ann''" and l = demo_libs and cfg = demo_cfg
         and handler = "DeleteUser eng_ok" and handler' = "DeleteUser eng_ok" and db = demo_db]
  from t0 h0 have a: "snd (RequireAuth demo_cfg demo_libs (DeleteUser eng_ok) ?c0 demo_db) = demo_db"
    by blast
  have a': "fst (RequireAuth demo_cfg demo_libs (DeleteUser eng_ok) ?c0 demo_db)
     = (401, JObject [(''error'', JString ''Missing or malformed token'')])"
    by (simp add: RequireAuth_def Let_def Ctx_Get_def demo_ctx_def ExtractBearerToken_def
          JSONError_def StatusUnauthorized_def)
  from t1 h1 have b: "snd (RequireAuth demo_cfg demo_libs (DeleteUser eng_ok) (ctx_auth ''Basic k:ann'') demo_db) = demo_db"
    by blast
  from t2 h2 have c: "snd (RequireAuth demo_cfg demo_libs (DeleteUser eng_ok) (ctx_auth ''Bearer x:ann'') demo_db) = demo_db"
    and d: "fst (fst (RequireAuth demo_cfg demo_libs (DeleteUser eng_ok) (ctx_auth ''Bearer x:ann'') demo_db)) = 401"
    by (simp_all add: StatusUnauthorized_def)
  have e: "map id (users (snd (RequireAuth demo_cfg demo_libs (DeleteUser eng_ok) (ctx_auth ''Bearer k:ann'') demo_db)))
     = [''u2'', ''u3'']"
    by (simp add: RequireAuth_def Let_def Ctx_Get_def ctx_auth_def demo_ctx_def
          ExtractBearerToken_def ValidateJWT_def demo_libs_def demo_cfg_def DeleteUser_def
          Ctx_Params_def userService_Delete_def userRepository_Delete_def BeginTx_def
          ExecContext_def Commit_def eng_ok_def demo_db_def demo_row_def)
  from a a' b c d e show ?thesis by simp
qed

section \<open>Listing users\<close>

lemma scan_rows_acc:
  "scan_rows rows acc = Inr out \<Longrightarrow>
     map User.CreatedAt out = map User.CreatedAt acc @ map created_at rows
     \<and> map User.ID out = map User.ID acc @ map id rows"
proof (induction rows arbitrary: acc)
  case Nil
  then show ?case by simp
next
  case (Cons r rows)
  then show ?case
    by (auto simp: Scan_User_def split: sum.splits option.splits)
qed

lemma page_sorted:
  "sorted (map (\<lambda>r. - created_at r) (take n (drop m (sort_key (\<lambda>r. - created_at r) rows))))"
  by (simp add: take_map[symmetric] drop_map[symmetric] sorted_wrt_take sorted_wrt_drop del: take_map drop_map)

lemma desc_of_sorted_neg:
  "map User.CreatedAt out = map created_at rows \<Longrightarrow> sorted (map (\<lambda>r. - created_at r) rows)
    \<Longrightarrow> sorted_wrt (\<lambda>a b. User.CreatedAt a \<ge> User.CreatedAt b) out"
proof -
  assume eq: "map User.CreatedAt out = map created_at rows"
    and srt: "sorted (map (\<lambda>r. - created_at r) rows)"
  have "map (\<lambda>u. - User.CreatedAt u) out = map uminus (map User.CreatedAt out)" by simp
  also have "\<dots> = map (\<lambda>r. - created_at r) rows" by (simp add: eq)
  finally have "sorted (map (\<lambda>u. - User.CreatedAt u) out)" using srt by simp
  then show ?thesis by (simp add: sorted_map)
qed

lemma Atoi_50: "Atoi ''50'' = (50, None)"
  by (simp add: Atoi_def is_digit_def digits_value_def)

text \<open>
  C10. \<open>userRepository.List\<close> runs its query with limit 50 when the caller's limit is
  zero or negative and with the caller's limit otherwise; the users it returns are ordered
  by \<open>created_at\<close> descending and are the page of that ordering. A \<open>limit\<close> query
  parameter that is not a number parses to 0, and \<open>ListUsers\<close> then answers as it does
  when the parameter is absent (limit 50).
\<close>

theorem userRepository_List_limit_and_order:
  "userRepository_List eng db limit offset =
     (case Query_users_page eng db (if limit \<le> 0 then 50 else limit) offset of
        Inl err \<Rightarrow> Inl err
      | Inr rows \<Rightarrow> scan_rows rows [])
   \<and> (\<forall>out. userRepository_List eng db limit offset = Inr out \<longrightarrow>
         sorted_wrt (\<lambda>a b. User.CreatedAt a \<ge> User.CreatedAt b) out
         \<and> map User.ID out =
             map id (take (nat (if limit \<le> 0 then 50 else limit))
                       (drop (nat offset) (sort_key (\<lambda>r. - created_at r) (users db)))))
   \<and> (snd (Atoi q) = Some ErrSyntax \<longrightarrow> fst (Atoi q) = 0)
   \<and> (fst (Atoi (Ctx_Query c ''limit'' ''50'')) \<le> 0 \<longrightarrow>
         ListUsers eng c db = ListUsers eng (c\<lparr>queries := (queries c)(''limit'' := None)\<rparr>) db)"
proof (intro conjI allI impI)
  show eq: "userRepository_List eng db limit offset =
     (case Query_users_page eng db (if limit \<le> 0 then 50 else limit) offset of
        Inl err \<Rightarrow> Inl err
      | Inr rows \<Rightarrow> scan_rows rows [])"
    by (simp add: userRepository_List_def Let_def)
  {
    fix out
    assume ok: "userRepository_List eng db limit offset = Inr out"
    let ?page = "take (nat (if limit \<le> 0 then 50 else limit))
                   (drop (nat offset) (sort_key (\<lambda>r. - created_at r) (users db)))"
    from ok eq have scan: "scan_rows ?page [] = Inr out"
      by (auto simp: Query_users_page_def split: sum.splits option.splits if_splits)
    from scan_rows_acc[OF scan]
    have ca: "map User.CreatedAt out = map created_at ?page"
      and ids: "map User.ID out = map id ?page" by simp_all
    show "sorted_wrt (\<lambda>a b. User.CreatedAt a \<ge> User.CreatedAt b) out"
      by (rule desc_of_sorted_neg[OF ca page_sorted])
    show "map User.ID out = map id ?page" by (rule ids)
  }
  show "fst (Atoi q) = 0" if "snd (Atoi q) = Some ErrSyntax"
    using that by (auto simp: Atoi_def Let_def split: if_splits)
  show "ListUsers eng c db = ListUsers eng (c\<lparr>queries := (queries c)(''limit'' := None)\<rparr>) db"
    if "fst (Atoi (Ctx_Query c ''limit'' ''50'')) \<le> 0"
  proof -
    have a: "Ctx_Query (c\<lparr>queries := (queries c)(''limit'' := None)\<rparr>) ''limit'' ''50'' = ''50''"
      by (simp add: Ctx_Query_def)
    have b: "Ctx_Query (c\<lparr>queries := (queries c)(''limit'' := None)\<rparr>) ''offset'' ''0''
             = Ctx_Query c ''offset'' ''0''"
      by (simp add: Ctx_Query_def)
    show ?thesis
      using that
      by (simp add: ListUsers_def Let_def a b Atoi_50 userService_List_def userRepository_List_def)
  qed
qed

theorem userRepository_List_limit_and_order_witness:
  "map User.ID (projr (userRepository_List eng_ok demo_db (- 3) 1)) = [''u3'', ''u1'']
   \<and> map User.ID (projr (userRepository_List eng_ok demo_db 1 0)) = [''u2'']
   \<and> Atoi ''abc'' = (0, Some ErrSyntax)
   \<and> ListUsers eng_ok (demo_ctx\<lparr>queries := [''limit'' \<mapsto> ''abc'']\<rparr>) demo_db
       = ListUsers eng_ok (demo_ctx\<lparr>queries := Map.empty\<rparr>) demo_db"
proof -
  have q: "snd (Atoi ''abc'') = Some ErrSyntax"
    by (simp add: Atoi_def is_digit_def)
  have l: "fst (Atoi (Ctx_Query (demo_ctx\<lparr>queries := [''limit'' \<mapsto> ''abc'']\<rparr>) ''limit'' ''50'')) \<le> 0"
    by (simp add: Ctx_Query_def Atoi_def is_digit_def)
  have r1: "userRepository_List eng_ok demo_db (- 3) 1 = Inr (projr (userRepository_List eng_ok demo_db (- 3) 1))"
    by (simp add: userRepository_List_def Query_users_page_def eng_ok_def demo_db_def demo_row_def Scan_User_def)
  have r2: "userRepository_List eng_ok demo_db 1 0 = Inr (projr (userRepository_List eng_ok demo_db 1 0))"
    by (simp add: userRepository_List_def Query_users_page_def eng_ok_def demo_db_def demo_row_def Scan_User_def)
  note t1 = userRepository_List_limit_and_order
      [of eng_ok demo_db "- 3" 1 "''abc''" "demo_ctx\<lparr>queries := [''limit'' \<mapsto> ''abc'']\<rparr>"]
  note t2 = userRepository_List_limit_and_order
      [of eng_ok demo_db 1 0 "''abc''" "demo_ctx\<lparr>queries := [''limit'' \<mapsto> ''abc'']\<rparr>"]
  from t1 r1 have a: "map User.ID (projr (userRepository_List eng_ok demo_db (- 3) 1)) = [''u3'', ''u1'']"
    by (simp add: demo_db_def demo_row_def)
  from t2 r2 have b: "map User.ID (projr (userRepository_List eng_ok demo_db 1 0)) = [''u2'']"
    by (simp add: demo_db_def demo_row_def)
  from t1 q have c: "Atoi ''abc'' = (0, Some ErrSyntax)"
    by (simp add: prod_eq_iff)
  from t1 l have d: "ListUsers eng_ok (demo_ctx\<lparr>queries := [''limit'' \<mapsto> ''abc'']\<rparr>) demo_db
       = ListUsers eng_ok (demo_ctx\<lparr>queries := Map.empty\<rparr>) demo_db"
    by (simp add: demo_ctx_def)
  from a b c d show ?thesis by simp
qed

section \<open>Mutating operations are all or nothing\<close>

lemma service_shape:
  "all_or_nothing eng st db
     (case BeginTx eng db of
        Inl err \<Rightarrow> (Some err, db)
      | Inr tx \<Rightarrow>
          (case ExecContext eng tx st of
             Inl err \<Rightarrow> (Some err, Rollback tx db)
           | Inr tx' \<Rightarrow> Commit eng tx' db))"
  by (auto simp: all_or_nothing_def BeginTx_def ExecContext_def Commit_def Rollback_def
        split: option.splits)

text \<open>
  C8. Create, update and delete of products and of users are each all or nothing on the
  store: the statement is applied whole and committed, or the store is unchanged and
  the error returned is the one the store gave at BEGIN, at the statement or at COMMIT.
  (\<open>userService.Create\<close> first hashes the password; if that fails it returns the error
  and touches nothing.) The handlers answer such an error with status 500 and the error's
  own message.
\<close>

theorem crud_all_or_nothing:
  "all_or_nothing eng (INSERT_products (row_of_Product p)) db (productService_Create eng p db)
   \<and> all_or_nothing eng (UPDATE_products (row_of_Product p)) db (productService_Update eng p db)
   \<and> all_or_nothing eng (DELETE_products i) db (productService_Delete eng i db)
   \<and> (case password_Hash l plain of
         Inl err \<Rightarrow> fst (userService_Create l eng u plain db) = Some err
                     \<and> snd (snd (userService_Create l eng u plain db)) = db
       | Inr hash \<Rightarrow>
           all_or_nothing eng
             (INSERT_users ((if User.ID u = [] then u\<lparr>ID := uuid_NewString l\<rparr> else u)\<lparr>PasswordHash := hash\<rparr>))
             db
             (fst (userService_Create l eng u plain db), snd (snd (userService_Create l eng u plain db))))
   \<and> all_or_nothing eng (UPDATE_users u) db (userService_Update eng u db)
   \<and> all_or_nothing eng (DELETE_users i) db (userService_Delete eng i db)
   \<and> (case fst (productService_Create eng p db) of
         Some err \<Rightarrow> CreateProduct eng (Some p) c db
                       = (JSONError StatusInternalServerError (Error_msg err), db)
       | None \<Rightarrow> fst (fst (CreateProduct eng (Some p) c db)) = StatusCreated)
   \<and> (case fst (userService_Delete eng i db) of
         Some err \<Rightarrow> i \<noteq> [] \<longrightarrow> DeleteUser eng (c\<lparr>params := (params c)(''id'' \<mapsto> i)\<rparr>) db
                       = (JSONError StatusInternalServerError (Error_msg err), db)
       | None \<Rightarrow> i \<noteq> [] \<longrightarrow> fst (fst (DeleteUser eng (c\<lparr>params := (params c)(''id'' \<mapsto> i)\<rparr>) db)) = StatusOK)"
proof (intro conjI)
  show "all_or_nothing eng (INSERT_products (row_of_Product p)) db (productService_Create eng p db)"
    unfolding productService_Create_def productRepository_Insert_def by (rule service_shape)
  show "all_or_nothing eng (UPDATE_products (row_of_Product p)) db (productService_Update eng p db)"
    unfolding productService_Update_def productRepository_Update_def by (rule service_shape)
  show "all_or_nothing eng (DELETE_products i) db (productService_Delete eng i db)"
    unfolding productService_Delete_def productRepository_Delete_def by (rule service_shape)
  show "all_or_nothing eng (UPDATE_users u) db (userService_Update eng u db)"
    unfolding userService_Update_def userRepository_Update_def by (rule service_shape)
  show del: "all_or_nothing eng (DELETE_users i) db (userService_Delete eng i db)"
    unfolding userService_Delete_def userRepository_Delete_def by (rule service_shape)
  show "case password_Hash l plain of
         Inl err \<Rightarrow> fst (userService_Create l eng u plain db) = Some err
                     \<and> snd (snd (userService_Create l eng u plain db)) = db
       | Inr hash \<Rightarrow>
           all_or_nothing eng
             (INSERT_users ((if User.ID u = [] then u\<lparr>ID := uuid_NewString l\<rparr> else u)\<lparr>PasswordHash := hash\<rparr>))
             db
             (fst (userService_Create l eng u plain db), snd (snd (userService_Create l eng u plain db)))"
  proof (cases "password_Hash l plain")
    case (Inl err)
    then show ?thesis by (simp add: userService_Create_def Let_def)
  next
    case (Inr hash)
    let ?u = "(if User.ID u = [] then u\<lparr>ID := uuid_NewString l\<rparr> else u)\<lparr>PasswordHash := hash\<rparr>"
    have "(fst (userService_Create l eng u plain db), snd (snd (userService_Create l eng u plain db)))
          = (case BeginTx eng db of
               Inl err \<Rightarrow> (Some err, db)
             | Inr tx \<Rightarrow>
                 (case ExecContext eng tx (INSERT_users ?u) of
                    Inl err \<Rightarrow> (Some err, Rollback tx db)
                  | Inr tx' \<Rightarrow> Commit eng tx' db))"
      using Inr
      by (simp add: userService_Create_def Let_def userRepository_Insert_def
            split: sum.splits prod.splits)
    then show ?thesis using Inr service_shape[of eng "INSERT_users ?u" db] by simp
  qed
  have pc: "all_or_nothing eng (INSERT_products (row_of_Product p)) db (productService_Create eng p db)"
    unfolding productService_Create_def productRepository_Insert_def by (rule service_shape)
  show "case fst (productService_Create eng p db) of
         Some err \<Rightarrow> CreateProduct eng (Some p) c db
                       = (JSONError StatusInternalServerError (Error_msg err), db)
       | None \<Rightarrow> fst (fst (CreateProduct eng (Some p) c db)) = StatusCreated"
    using pc
    by (cases "productService_Create eng p db")
       (auto simp: CreateProduct_def all_or_nothing_def split: option.splits)
  show "case fst (userService_Delete eng i db) of
         Some err \<Rightarrow> i \<noteq> [] \<longrightarrow> DeleteUser eng (c\<lparr>params := (params c)(''id'' \<mapsto> i)\<rparr>) db
                       = (JSONError StatusInternalServerError (Error_msg err), db)
       | None \<Rightarrow> i \<noteq> [] \<longrightarrow> fst (fst (DeleteUser eng (c\<lparr>params := (params c)(''id'' \<mapsto> i)\<rparr>) db)) = StatusOK"
    using del
    by (cases "userService_Delete eng i db")
       (auto simp: DeleteUser_def Let_def Ctx_Params_def all_or_nothing_def split: option.splits)
qed

theorem crud_all_or_nothing_witness:
  "productService_Create eng_ok demo_product demo_db
     = (None, demo_db\<lparr>products := [row_of_Product demo_product]\<rparr>)
   \<and> productService_Create eng_no_commit demo_product demo_db
     = (Some (DriverError ''commit failed''), demo_db)
   \<and> CreateProduct eng_no_commit (Some demo_product) demo_ctx demo_db
     = ((500, JObject [(''error'', JString ''commit failed'')]), demo_db)"
proof -
  note ok = crud_all_or_nothing
      [where eng = eng_ok and p = demo_product and db = demo_db and c = demo_ctx]
  note ko = crud_all_or_nothing
      [where eng = eng_no_commit and p = demo_product and db = demo_db and c = demo_ctx]
  have f1: "fst (productService_Create eng_ok demo_product demo_db) = None"
    by (simp add: productService_Create_def productRepository_Insert_def BeginTx_def
          ExecContext_def Commit_def eng_ok_def)
  have f2: "fst (productService_Create eng_no_commit demo_product demo_db)
              = Some (DriverError ''commit failed'')"
    by (simp add: productService_Create_def productRepository_Insert_def BeginTx_def
          ExecContext_def Commit_def eng_no_commit_def eng_ok_def)
  from ok f1 have "snd (productService_Create eng_ok demo_product demo_db)
                    = apply_stmt (NOW eng_ok) (INSERT_products (row_of_Product demo_product)) demo_db"
    by (simp add: all_or_nothing_def)
  with f1 have a: "productService_Create eng_ok demo_product demo_db
     = (None, demo_db\<lparr>products := [row_of_Product demo_product]\<rparr>)"
    by (simp add: prod_eq_iff demo_db_def)
  from ko f2 have "snd (productService_Create eng_no_commit demo_product demo_db) = demo_db"
    by (simp add: all_or_nothing_def)
  with f2 have b: "productService_Create eng_no_commit demo_product demo_db
     = (Some (DriverError ''commit failed''), demo_db)"
    by (simp add: prod_eq_iff)
  from ko f2 have c: "CreateProduct eng_no_commit (Some demo_product) demo_ctx demo_db
     = ((500, JObject [(''error'', JString ''commit failed'')]), demo_db)"
    by (simp add: JSONError_def StatusInternalServerError_def)
  from a b c show ?thesis by simp
qed

section \<open>Creating a user\<close>

text \<open>
  C9. When \<open>userService.Create\<close> succeeds, the row appended to \<open>users\<close> carries the
  bcrypt hash of the plain password as \<open>password_hash\<close>, and as id a fresh UUID if the
  given ID was empty and the given ID otherwise; the rest of the row comes from the user
  and the server's clock. When it fails the store is unchanged. The plain password
  reaches the result only through its hash: two passwords with the same hash leave the
  same result.
\<close>

theorem userService_Create_hash_and_id:
  "(\<forall>u' db'. userService_Create l eng u plain db = (None, u', db') \<longrightarrow>
       (\<exists>hash. password_Hash l plain = Inr hash
          \<and> u' = u\<lparr>ID := (if User.ID u = [] then uuid_NewString l else User.ID u),
                    PasswordHash := hash\<rparr>
          \<and> db' = apply_stmt (NOW eng) (INSERT_users u') db
          \<and> users db' = users db @
               [\<lparr>id = (if User.ID u = [] then uuid_NewString l else User.ID u),
                 username = Username u, password_hash = hash, role = Role u,
                 email = Some (Email u), profile_photo = Some (ProfilePhoto u),
                 last_login = LastLogin u, created_by = Some (User.CreatedBy u),
                 created_at = NOW eng, updated_by = Some (User.UpdatedBy u),
                 updated_at = NOW eng\<rparr>]))
   \<and> (\<forall>e. fst (userService_Create l eng u plain db) = Some e \<longrightarrow>
         snd (snd (userService_Create l eng u plain db)) = db)
   \<and> (password_Hash l plain = password_Hash l plain' \<longrightarrow>
         userService_Create l eng u plain db = userService_Create l eng u plain' db)"
proof (intro conjI allI impI)
  fix u' db'
  assume ok: "userService_Create l eng u plain db = (None, u', db')"
  then obtain hash where h: "password_Hash l plain = Inr hash"
    by (cases "password_Hash l plain") (simp_all add: userService_Create_def Let_def)
  let ?u = "u\<lparr>ID := (if User.ID u = [] then uuid_NewString l else User.ID u), PasswordHash := hash\<rparr>"
  have u_eq: "(if User.ID u = [] then u\<lparr>ID := uuid_NewString l\<rparr> else u)\<lparr>PasswordHash := hash\<rparr> = ?u"
    by simp
  from ok h have u': "u' = ?u" and db': "db' = apply_stmt (NOW eng) (INSERT_users ?u) db"
    by (auto simp: userService_Create_def Let_def userRepository_Insert_def BeginTx_def
          ExecContext_def Commit_def Rollback_def split: option.splits if_splits)
  show "\<exists>hash. password_Hash l plain = Inr hash
          \<and> u' = u\<lparr>ID := (if User.ID u = [] then uuid_NewString l else User.ID u),
                    PasswordHash := hash\<rparr>
          \<and> db' = apply_stmt (NOW eng) (INSERT_users u') db
          \<and> users db' = users db @
               [\<lparr>id = (if User.ID u = [] then uuid_NewString l else User.ID u),
                 username = Username u, password_hash = hash, role = Role u,
                 email = Some (Email u), profile_photo = Some (ProfilePhoto u),
                 last_login = LastLogin u, created_by = Some (User.CreatedBy u),
                 created_at = NOW eng, updated_by = Some (User.UpdatedBy u),
                 updated_at = NOW eng\<rparr>]"
    using h u' db' by (intro exI[of _ hash]) simp
next
  fix e
  assume "fst (userService_Create l eng u plain db) = Some e"
  then show "snd (snd (userService_Create l eng u plain db)) = db"
    by (auto simp: userService_Create_def Let_def userRepository_Insert_def BeginTx_def
          ExecContext_def Commit_def Rollback_def split: option.splits sum.splits if_splits)
next
  assume "password_Hash l plain = password_Hash l plain'"
  then show "userService_Create l eng u plain db = userService_Create l eng u plain' db"
    by (simp add: userService_Create_def)
qed

theorem userService_Create_hash_and_id_witness:
  "users (snd (snd (userService_Create demo_libs eng_ok demo_user ''s3cret'' demo_db)))
     = users demo_db @
         [\<lparr>id = ''0b9d6c1e-5a2f-4c3b-9e47-6f1d2a3b4c5d'', username = ''dee'',
           password_hash = ''$2a$10$terc3s'', role = ''staff'',
           email = Some ''dee@luxtrack.com'', profile_photo = Some [], last_login = None,
           created_by = Some ''ann@luxtrack.com'', created_at = 1000,
           updated_by = Some ''ann@luxtrack.com'', updated_at = 1000\<rparr>]
   \<and> User.ID (fst (snd (userService_Create demo_libs eng_ok (demo_user\<lparr>ID := ''given''\<rparr>) ''s3cret'' demo_db)))
     = ''given''"
proof -
  let ?r = "userService_Create demo_libs eng_ok demo_user ''s3cret'' demo_db"
  let ?g = "demo_user\<lparr>ID := ''given''\<rparr>"
  let ?r2 = "userService_Create demo_libs eng_ok ?g ''s3cret'' demo_db"
  have h: "password_Hash demo_libs ''s3cret'' = Inr ''$2a$10$terc3s''"
    by (simp add: password_Hash_def demo_libs_def)
  have f: "fst ?r = None"
    by (simp add: userService_Create_def Let_def h userRepository_Insert_def BeginTx_def
          ExecContext_def Commit_def eng_ok_def)
  have f2: "fst ?r2 = None"
    by (simp add: userService_Create_def Let_def h userRepository_Insert_def BeginTx_def
          ExecContext_def Commit_def eng_ok_def)
  from f have r: "?r = (None, fst (snd ?r), snd (snd ?r))" by (simp add: prod_eq_iff)
  from f2 have r2: "?r2 = (None, fst (snd ?r2), snd (snd ?r2))" by (simp add: prod_eq_iff)
  note t = userService_Create_hash_and_id
         [where l = demo_libs and eng = eng_ok and u = demo_user and plain = "''s3cret''"
            and db = demo_db]
  note t2 = userService_Create_hash_and_id
         [where l = demo_libs and eng = eng_ok and u = ?g and plain = "''s3cret''"
            and db = demo_db]
  from t r obtain hash where
      hh: "password_Hash demo_libs ''s3cret'' = Inr hash"
      and us: "users (snd (snd ?r)) = users demo_db @
               [\<lparr>id = (if User.ID demo_user = [] then uuid_NewString demo_libs else User.ID demo_user),
                 username = Username demo_user, password_hash = hash, role = Role demo_user,
                 email = Some (Email demo_user), profile_photo = Some (ProfilePhoto demo_user),
                 last_login = LastLogin demo_user, created_by = Some (User.CreatedBy demo_user),
                 created_at = NOW eng_ok, updated_by = Some (User.UpdatedBy demo_user),
                 updated_at = NOW eng_ok\<rparr>]"
    by blast
  from hh h have hash: "hash = ''$2a$10$terc3s''" by simp
  have a: "users (snd (snd ?r)) = users demo_db @
         [\<lparr>id = ''0b9d6c1e-5a2f-4c3b-9e47-6f1d2a3b4c5d'', username = ''dee'',
           password_hash = ''$2a$10$terc3s'', role = ''staff'',
           email = Some ''dee@luxtrack.com'', profile_photo = Some [], last_login = None,
           created_by = Some ''ann@luxtrack.com'', created_at = 1000,
           updated_by = Some ''ann@luxtrack.com'', updated_at = 1000\<rparr>]"
    unfolding us hash by (simp add: demo_user_def demo_libs_def eng_ok_def)
  from t2 r2 obtain hash2 where
      "fst (snd ?r2) = ?g\<lparr>ID := (if User.ID ?g = [] then uuid_NewString demo_libs else User.ID ?g),
                    PasswordHash := hash2\<rparr>"
    by blast
  then have b: "User.ID (fst (snd ?r2)) = ''given''" by simp
  from a b show ?thesis by simp
qed

section \<open>Creating a transaction\<close>

lemma run_ops_append:
  "run_ops srv (xs @ ys) s =
     (case run_ops srv xs s of Inl e \<Rightarrow> Inl e | Inr s' \<Rightarrow> run_ops srv ys s')"
  by (induction xs arbitrary: s) (simp_all split: sum.splits)

lemma run_ops_line_items:
  "run_ops srv (map InsertLineItem rows) s = Inr s' \<Longrightarrow> s' = s\<lparr>line_items := line_items s @ rows\<rparr>"
proof (induction rows arbitrary: s)
  case Nil
  then show ?case by simp
next
  case (Cons r rows)
  from Cons.prems obtain s1 where a: "apply_op srv (InsertLineItem r) s = Inr s1"
    and rest: "run_ops srv (map InsertLineItem rows) s1 = Inr s'"
    by (auto split: sum.splits)
  from a have s1: "s1 = s\<lparr>line_items := line_items s @ [r]\<rparr>"
    by (auto simp: apply_op_def split: option.splits if_splits)
  from Cons.IH[OF rest] show ?case by (simp add: s1)
qed

lemma run_ops_statuses:
  "run_ops srv (map (\<lambda>p. UpdateProductStatus p st) ps) s = Inr s' \<Longrightarrow>
     transactions s' = transactions s \<and> line_items s' = line_items s
     \<and> (\<forall>p. product_status_of s' p = (if p \<in> set ps then Some st else product_status_of s p))"
proof (induction ps arbitrary: s)
  case Nil
  then show ?case by simp
next
  case (Cons q ps)
  from Cons.prems obtain s1 where a: "apply_op srv (UpdateProductStatus q st) s = Inr s1"
    and rest: "run_ops srv (map (\<lambda>p. UpdateProductStatus p st) ps) s1 = Inr s'"
    by (auto split: sum.splits)
  from a have s1: "s1 = s\<lparr>product_status_of := (product_status_of s)(q \<mapsto> st)\<rparr>"
    by (auto simp: apply_op_def split: option.splits if_splits)
  from Cons.IH[OF rest] show ?case by (simp add: s1)
qed

lemma run_ops_fails_at:
  "run_ops srv pre s = Inr s1 \<Longrightarrow> apply_op srv op s1 = Inl e \<Longrightarrow>
     run_ops srv (pre @ op # post) s = Inl e"
  by (simp add: run_ops_append)

lemma create_transaction_outcome:
  "case create_transaction srv req s of
      (Inl e, s') \<Rightarrow> s' = s
    | (Inr t, s') \<Rightarrow>
        t = header_of srv req
        \<and> transactions s' = transactions s @ [t]
        \<and> line_items s' = line_items s @ map (line_item_of srv) (items req)
        \<and> (\<forall>p. product_status_of s' p =
               (if submitData.transaction_type req = ''sale'' \<and> p \<in> item.product_id ` set (items req)
                then Some (sale_status srv) else product_status_of s p))"
proof (cases "items req = []")
  case True
  then show ?thesis by (simp add: create_transaction_def)
next
  case nonempty: False
  show ?thesis
  proof (cases "run_ops srv (ops_of srv req) s")
    case (Inl e)
    with nonempty show ?thesis by (simp add: create_transaction_def)
  next
    case (Inr s')
    let ?rows = "map (line_item_of srv) (items req)"
    let ?ups = "if submitData.transaction_type req = ''sale''
                then map (\<lambda>p. UpdateProductStatus p (sale_status srv)) (map item.product_id (items req))
                else []"
    have ops: "ops_of srv req = [InsertTransaction (header_of srv req)] @ map InsertLineItem ?rows @ ?ups"
      by (simp add: ops_of_def comp_def)
    from Inr obtain s1 s2 where
        h: "apply_op srv (InsertTransaction (header_of srv req)) s = Inr s1"
        and li: "run_ops srv (map InsertLineItem ?rows) s1 = Inr s2"
        and up: "run_ops srv ?ups s2 = Inr s'"
      unfolding ops by (auto simp: run_ops_append split: sum.splits)
    from h have s1: "s1 = s\<lparr>transactions := transactions s @ [header_of srv req]\<rparr>"
      by (auto simp: apply_op_def split: option.splits)
    from run_ops_line_items[OF li] have s2: "s2 = s1\<lparr>line_items := line_items s1 @ ?rows\<rparr>" .
    have fin: "transactions s' = transactions s2 \<and> line_items s' = line_items s2
         \<and> (\<forall>p. product_status_of s' p =
             (if submitData.transaction_type req = ''sale'' \<and> p \<in> item.product_id ` set (items req)
              then Some (sale_status srv) else product_status_of s2 p))"
    proof (cases "submitData.transaction_type req = ''sale''")
      case True
      with up have "run_ops srv (map (\<lambda>p. UpdateProductStatus p (sale_status srv))
                       (map item.product_id (items req))) s2 = Inr s'" by simp
      from run_ops_statuses[OF this] True show ?thesis by simp
    next
      case False
      with up show ?thesis by simp
    qed
    from fin nonempty Inr show ?thesis
      by (simp add: create_transaction_def s1 s2)
  qed
qed

text \<open>
  C1. Transaction creation is all or nothing. Whenever it reports an error the store is
  exactly the store before the request; whenever it reports success the header, every
  line item and (for a sale) every status change are in the store. In particular, if the
  writes up to some point succeed and the next one fails, the writes made so far are
  undone and the error is reported.
\<close>

theorem create_transaction_all_or_nothing:
  "(case create_transaction srv req s of
      (Inl e, s') \<Rightarrow> s' = s
    | (Inr t, s') \<Rightarrow>
        t = header_of srv req
        \<and> transactions s' = transactions s @ [t]
        \<and> line_items s' = line_items s @ map (line_item_of srv) (items req)
        \<and> (\<forall>p. product_status_of s' p =
               (if submitData.transaction_type req = ''sale'' \<and> p \<in> item.product_id ` set (items req)
                then Some (sale_status srv) else product_status_of s p)))
   \<and> (items req \<noteq> [] \<and> ops_of srv req = pre @ op # post
        \<and> run_ops srv pre s = Inr s1 \<and> apply_op srv op s1 = Inl e
       \<longrightarrow> create_transaction srv req s = (Inl e, s))"
proof (rule conjI)
  show "items req \<noteq> [] \<and> ops_of srv req = pre @ op # post
        \<and> run_ops srv pre s = Inr s1 \<and> apply_op srv op s1 = Inl e
       \<longrightarrow> create_transaction srv req s = (Inl e, s)"
    by (simp add: create_transaction_def run_ops_fails_at)
  show "case create_transaction srv req s of
        (Inl e, s') \<Rightarrow> s' = s
      | (Inr t, s') \<Rightarrow>
          t = header_of srv req
          \<and> transactions s' = transactions s @ [t]
          \<and> line_items s' = line_items s @ map (line_item_of srv) (items req)
          \<and> (\<forall>p. product_status_of s' p =
                 (if submitData.transaction_type req = ''sale'' \<and> p \<in> item.product_id ` set (items req)
                  then Some (sale_status srv) else product_status_of s p))"
    by (rule create_transaction_outcome)
qed

theorem create_transaction_all_or_nothing_witness:
  "create_transaction failing_server demo_sale demo_store
     = (Inl (StoreError ''deadlock detected''), demo_store)
   \<and> create_transaction demo_server bad_sale demo_store = (Inl (UnknownProduct ''p9''), demo_store)
   \<and> map li_product_id (line_items (snd (create_transaction demo_server demo_sale demo_store)))
     = [''p1'', ''p2'']
   \<and> product_status_of (snd (create_transaction demo_server demo_sale demo_store)) ''p2'' = Some sold"
proof -
  let ?pre = "[InsertTransaction (header_of failing_server demo_sale),
               InsertLineItem (line_item_of failing_server \<lparr>product_id = ''p1'', quantity = 1, unit_price = 2500\<rparr>),
               InsertLineItem (line_item_of failing_server \<lparr>product_id = ''p2'', quantity = 2, unit_price = 199 / 2\<rparr>)]"
  let ?op = "UpdateProductStatus ''p1'' sold"
  let ?post = "[UpdateProductStatus ''p2'' sold]"
  let ?s1 = "demo_store\<lparr>transactions := [header_of failing_server demo_sale],
                         line_items := map (line_item_of failing_server) (items demo_sale)\<rparr>"
  have ne: "items demo_sale \<noteq> []" by (simp add: demo_sale_def)
  have ops: "ops_of failing_server demo_sale = ?pre @ ?op # ?post"
    by (simp add: ops_of_def demo_sale_def failing_server_def demo_server_def)
  have pre: "run_ops failing_server ?pre demo_store = Inr ?s1"
    by (simp add: apply_op_def failing_server_def demo_server_def demo_store_def demo_sale_def
          line_item_of_def)
  have op: "apply_op failing_server ?op ?s1 = Inl (StoreError ''deadlock detected'')"
    by (simp add: apply_op_def failing_server_def)
  note t = create_transaction_all_or_nothing
      [where srv = failing_server and req = demo_sale and s = demo_store and pre = ?pre
         and op = ?op and post = ?post and ?s1.0 = ?s1 and e = "StoreError ''deadlock detected''"]
  from t ne ops pre op
  have a: "create_transaction failing_server demo_sale demo_store
     = (Inl (StoreError ''deadlock detected''), demo_store)"
    by blast
  have fb: "fst (create_transaction demo_server bad_sale demo_store) = Inl (UnknownProduct ''p9'')"
    by (simp add: create_transaction_def ops_of_def bad_sale_def demo_sale_def apply_op_def
          demo_server_def demo_store_def line_item_of_def)
  note tb = create_transaction_all_or_nothing
      [where srv = demo_server and req = bad_sale and s = demo_store]
  from tb fb have "snd (create_transaction demo_server bad_sale demo_store) = demo_store"
    by (cases "create_transaction demo_server bad_sale demo_store") auto
  with fb have b: "create_transaction demo_server bad_sale demo_store
                     = (Inl (UnknownProduct ''p9''), demo_store)"
    by (simp add: prod_eq_iff)
  have fg: "fst (create_transaction demo_server demo_sale demo_store) = Inr (header_of demo_server demo_sale)"
    by (simp add: create_transaction_def ops_of_def demo_sale_def apply_op_def
          demo_server_def demo_store_def line_item_of_def)
  note tg = create_transaction_all_or_nothing
      [where srv = demo_server and req = demo_sale and s = demo_store]
  from tg fg have g: "line_items (snd (create_transaction demo_server demo_sale demo_store))
             = line_items demo_store @ map (line_item_of demo_server) (items demo_sale)
           \<and> product_status_of (snd (create_transaction demo_server demo_sale demo_store)) ''p2''
             = (if submitData.transaction_type demo_sale = ''sale''
                    \<and> ''p2'' \<in> item.product_id ` set (items demo_sale)
                then Some (sale_status demo_server) else product_status_of demo_store ''p2'')"
    by (cases "create_transaction demo_server demo_sale demo_store") auto
  then have c: "map li_product_id (line_items (snd (create_transaction demo_server demo_sale demo_store)))
     = [''p1'', ''p2'']"
    and d: "product_status_of (snd (create_transaction demo_server demo_sale demo_store)) ''p2'' = Some sold"
    by (simp_all add: demo_store_def demo_sale_def line_item_of_def demo_server_def)
  from a b c d show ?thesis by simp
qed

text \<open>
  C2. A transaction without line items is rejected and nothing is persisted: the form
  sets its error message and posts nothing, whatever the server would do, and the service
  answers a request with an empty item list with a validation error and the store
  unchanged.
\<close>

theorem empty_transaction_rejected:
  "(selectedProducts st = [] \<longrightarrow>
      handleSubmit post st s
        = (st\<lparr>loading := False, error := ''Please select at least one product''\<rparr>, False, s))
   \<and> (items req = [] \<longrightarrow>
        (case create_transaction srv req s' of
           (Inl (ValidationError m), s'') \<Rightarrow> s'' = s'
         | _ \<Rightarrow> False))"
  by (simp add: handleSubmit_def Let_def create_transaction_def)

theorem empty_transaction_rejected_witness:
  "handleSubmit (post_transactions demo_server) demo_form demo_store
     = (demo_form\<lparr>error := ''Please select at least one product''\<rparr>, False, demo_store)
   \<and> create_transaction demo_server empty_sale demo_store
     = (Inl (ValidationError ''at least one line item is required''), demo_store)"
proof -
  have e1: "selectedProducts demo_form = []" by (simp add: demo_form_def)
  have e2: "items empty_sale = []" by (simp add: empty_sale_def)
  note t = empty_transaction_rejected
      [where st = demo_form and post = "post_transactions demo_server" and s = demo_store
         and req = empty_sale and srv = demo_server and s' = demo_store]
  from t e1 have a: "handleSubmit (post_transactions demo_server) demo_form demo_store
     = (demo_form\<lparr>error := ''Please select at least one product''\<rparr>, False, demo_store)"
    by (simp add: demo_form_def)
  from t e2 have "snd (create_transaction demo_server empty_sale demo_store) = demo_store"
    by (auto split: prod.splits sum.splits api_error.splits)
  moreover have "fst (create_transaction demo_server empty_sale demo_store)
                   = Inl (ValidationError ''at least one line item is required'')"
    by (simp add: create_transaction_def e2)
  ultimately have b: "create_transaction demo_server empty_sale demo_store
     = (Inl (ValidationError ''at least one line item is required''), demo_store)"
    by (simp add: prod_eq_iff)
  from a b show ?thesis by simp
qed

text \<open>
  C3. The total the service persists with a transaction is the sum over the request's
  line items of quantity times unit price, computed by the service from the items; a
  total sent in the request changes nothing. Every line item written carries quantity
  times unit price as its total price. The form itself sends no total: what
  \<open>handleSubmit\<close> posts has no \<open>total_amount\<close>.
\<close>

theorem total_is_sum_of_items:
  "(\<forall>t s'. create_transaction srv req s = (Inr t, s') \<longrightarrow>
         tx_total_amount t = (\<Sum>it \<leftarrow> items req. of_int (quantity it) * unit_price it)
         \<and> t \<in> set (transactions s')
         \<and> (\<forall>li \<in> set (line_items s') - set (line_items s).
               li_total_price li = of_int (li_quantity li) * li_unit_price li))
   \<and> create_transaction srv (req\<lparr>total_amount := x\<rparr>) s = create_transaction srv req s
   \<and> handleSubmit post st s0 = handleSubmit (\<lambda>data. post (data\<lparr>total_amount := None\<rparr>)) st s0"
proof (intro conjI allI impI)
  show "handleSubmit post st s0 = handleSubmit (\<lambda>data. post (data\<lparr>total_amount := None\<rparr>)) st s0"
    by (simp add: handleSubmit_def Let_def)
  have h: "header_of srv (req\<lparr>total_amount := x\<rparr>) = header_of srv req"
    by (simp add: header_of_def)
  have o: "ops_of srv (req\<lparr>total_amount := x\<rparr>) = ops_of srv req"
    by (simp add: ops_of_def h)
  show "create_transaction srv (req\<lparr>total_amount := x\<rparr>) s = create_transaction srv req s"
    by (simp add: create_transaction_def h o cong: sum.case_cong)
next
  fix t s'
  assume ok: "create_transaction srv req s = (Inr t, s')"
  have c: "case create_transaction srv req s of
      (Inl e, s') \<Rightarrow> s' = s
    | (Inr t, s') \<Rightarrow>
        t = header_of srv req
        \<and> transactions s' = transactions s @ [t]
        \<and> line_items s' = line_items s @ map (line_item_of srv) (items req)
        \<and> (\<forall>p. product_status_of s' p =
               (if submitData.transaction_type req = ''sale'' \<and> p \<in> item.product_id ` set (items req)
                then Some (sale_status srv) else product_status_of s p))"
    by (rule create_transaction_outcome)
  from c ok have t: "t = header_of srv req" and tr: "transactions s' = transactions s @ [t]"
    and li: "line_items s' = line_items s @ map (line_item_of srv) (items req)"
    by simp_all
  show "tx_total_amount t = (\<Sum>it \<leftarrow> items req. of_int (quantity it) * unit_price it)"
    by (simp add: t header_of_def items_total_def)
  show "t \<in> set (transactions s')" by (simp add: tr)
  show "\<forall>li \<in> set (line_items s') - set (line_items s).
               li_total_price li = of_int (li_quantity li) * li_unit_price li"
    by (auto simp: li line_item_of_def)
qed


theorem total_is_sum_of_items_witness:
  "total_amount demo_sale = Some 1
   \<and> map tx_total_amount (transactions (snd (create_transaction demo_server demo_sale demo_store)))
       = [2699]"
proof -
  let ?r = "create_transaction demo_server demo_sale demo_store"
  note t = total_is_sum_of_items
      [where srv = demo_server and req = demo_sale and s = demo_store and x = None
         and post = "post_transactions demo_server" and st = demo_form and ?s0.0 = demo_store]
  have f: "fst ?r = Inr (header_of demo_server demo_sale)"
    by (simp add: create_transaction_def ops_of_def demo_sale_def apply_op_def
          demo_server_def demo_store_def line_item_of_def)
  then have r: "?r = (Inr (header_of demo_server demo_sale), snd ?r)"
    by (simp add: prod_eq_iff)
  from t r have tot: "tx_total_amount (header_of demo_server demo_sale)
             = (\<Sum>it \<leftarrow> items demo_sale. of_int (quantity it) * unit_price it)"
    by blast
  have tr: "transactions (snd ?r) = [header_of demo_server demo_sale]"
    by (simp add: create_transaction_def ops_of_def demo_sale_def apply_op_def
          demo_server_def demo_store_def line_item_of_def)
  have b: "map tx_total_amount (transactions (snd ?r)) = [2699]"
    unfolding tr using tot by (simp add: demo_sale_def)
  have c: "total_amount demo_sale = Some 1" by (simp add: demo_sale_def)
  from b c show ?thesis by simp
qed

end
